theory Spec2Isabelle
  imports Complex_Main
begin

section \<open>Python values and exceptions\<close>

text \<open>
  The values that cross the module's boundary: what \<^verbatim>\<open>json.loads\<close> returns, what
  \<^verbatim>\<open>json.dumps\<close> is given, the stats dictionary and the model parameters. A dictionary
  is an association list with pairwise distinct keys; the order of its entries carries no
  meaning. Python's unbounded \<^verbatim>\<open>int\<close> is \<^typ>\<open>int\<close>; a \<^verbatim>\<open>float\<close> is idealised as a
  \<^typ>\<open>real\<close>.
\<close>

datatype pyval =
    PNone
  | PBool bool
  | PInt int
  | PFloat real
  | PStr string
  | PList "pyval list"
  | PDict "(string \<times> pyval) list"

text \<open>
  A naive \<^verbatim>\<open>datetime.datetime\<close>: the number of microseconds between
  1970-01-01T00:00:00 and the wall-clock reading it holds, both on the object's own
  zone-less calendar.
\<close>

datatype datetime = Datetime int

text \<open>
  A raised exception, as far as the module observes it: the name of its class and of the
  classes it derives from (for \<^verbatim>\<open>except C\<close>), the result of \<^verbatim>\<open>str(ex)\<close>, and the text
  that \<^verbatim>\<open>BaseException.__repr__\<close> puts between the parentheses after the class name.
  \<^verbatim>\<open>SystemExit\<close> and \<^verbatim>\<open>KeyboardInterrupt\<close> are the exceptions whose bases do not include
  \<^verbatim>\<open>Exception\<close>.
\<close>

record exn =
  exn_class :: string
  exn_bases :: "string list"
  exn_str :: string
  exn_args_repr :: string

definition isinstance :: "exn \<Rightarrow> string \<Rightarrow> bool" where
  "isinstance ex c = (c = exn_class ex \<or> c \<in> set (exn_bases ex))"

definition py_str :: "exn \<Rightarrow> string" where
  "py_str ex = exn_str ex"

definition py_repr :: "exn \<Rightarrow> string" where
  "py_repr ex = exn_class ex @ ''('' @ exn_args_repr ex @ '')''"

text \<open>\<^verbatim>\<open>repr\<close> of a string argument, without the escapes of unusual characters.\<close>

definition py_repr_string :: "string \<Rightarrow> string" where
  "py_repr_string s = [CHR 0x27] @ s @ [CHR 0x27]"

text \<open>The exceptions that the statements of the module itself raise (Python 2.7).\<close>

definition standard_error :: "string \<Rightarrow> string list \<Rightarrow> string \<Rightarrow> exn" where
  "standard_error c bases msg =
     \<lparr>exn_class = c,
      exn_bases = bases @ [''StandardError'', ''Exception'', ''BaseException''],
      exn_str = msg,
      exn_args_repr = py_repr_string msg @ '',''\<rparr>"

definition ValueError :: "string \<Rightarrow> exn" where
  "ValueError msg = standard_error ''ValueError'' [] msg"

definition TypeError :: "string \<Rightarrow> exn" where
  "TypeError msg = standard_error ''TypeError'' [] msg"

definition AttributeError :: "string \<Rightarrow> exn" where
  "AttributeError msg = standard_error ''AttributeError'' [] msg"

definition IndexError :: "string \<Rightarrow> exn" where
  "IndexError msg = standard_error ''IndexError'' [''LookupError''] msg"

definition KeyError :: "string \<Rightarrow> exn" where
  "KeyError k =
     (standard_error ''KeyError'' [''LookupError''] (py_repr_string k))
       \<lparr>exn_args_repr := py_repr_string k @ '',''\<rparr>"

definition IOError :: "string \<Rightarrow> exn" where
  "IOError msg = standard_error ''IOError'' [''EnvironmentError''] msg"

text \<open>\<^verbatim>\<open>class _CommandLineArgError(Exception)\<close>\<close>

definition CommandLineArgError :: "string \<Rightarrow> exn" where
  "CommandLineArgError msg =
     \<lparr>exn_class = ''_CommandLineArgError'',
      exn_bases = [''Exception'', ''BaseException''],
      exn_str = msg,
      exn_args_repr = py_repr_string msg @ '',''\<rparr>"

subsection \<open>Operations of the language that the module uses\<close>

text \<open>\<^verbatim>\<open>d[key]\<close> with a string key.\<close>

fun py_getitem :: "pyval \<Rightarrow> string \<Rightarrow> exn + pyval" where
  "py_getitem (PDict d) k =
     (case map_of d k of None \<Rightarrow> Inl (KeyError k) | Some v \<Rightarrow> Inr v)"
| "py_getitem (PList xs) k = Inl (TypeError ''list indices must be integers, not str'')"
| "py_getitem (PStr s) k = Inl (TypeError ''string indices must be integers, not str'')"
| "py_getitem v k = Inl (TypeError ''object has no attribute __getitem__'')"

text \<open>\<^verbatim>\<open>d.get(key)\<close>: \<^verbatim>\<open>None\<close> for a missing key.\<close>

fun py_get :: "pyval \<Rightarrow> string \<Rightarrow> exn + pyval" where
  "py_get (PDict d) k = Inr (case map_of d k of None \<Rightarrow> PNone | Some v \<Rightarrow> v)"
| "py_get v k = Inl (AttributeError ''object has no attribute get'')"

text \<open>\<^verbatim>\<open>xs[0]\<close> on a list.\<close>

fun py_first :: "'a list \<Rightarrow> exn + 'a" where
  "py_first [] = Inl (IndexError ''list index out of range'')"
| "py_first (x # xs) = Inr x"

text \<open>
  \<^verbatim>\<open>a, b = v\<close>: unpacking iterates over \<open>v\<close> and needs exactly two items. A list gives
  its elements, a string its characters, a dictionary its keys.
\<close>

fun py_unpack2_items :: "pyval list \<Rightarrow> exn + (pyval \<times> pyval)" where
  "py_unpack2_items [a, b] = Inr (a, b)"
| "py_unpack2_items [] = Inl (ValueError ''need more than 0 values to unpack'')"
| "py_unpack2_items [a] = Inl (ValueError ''need more than 1 value to unpack'')"
| "py_unpack2_items (a # b # c # xs) = Inl (ValueError ''too many values to unpack'')"

fun py_unpack2 :: "pyval \<Rightarrow> exn + (pyval \<times> pyval)" where
  "py_unpack2 (PList xs) = py_unpack2_items xs"
| "py_unpack2 (PStr s) = py_unpack2_items (map (\<lambda>c. PStr [c]) s)"
| "py_unpack2 (PDict d) = py_unpack2_items (map (\<lambda>(k, v). PStr k) d)"
| "py_unpack2 v = Inl (TypeError ''object is not iterable'')"

text \<open>\<^verbatim>\<open>a or b\<close> on strings: the empty string is false.\<close>

definition py_or :: "string \<Rightarrow> string \<Rightarrow> string" where
  "py_or a b = (if a \<noteq> [] then a else b)"

definition newline :: string where
  "newline = [CHR 0x0A]"

section \<open>The process and its three channels\<close>

text \<open>
  The standard channels of the process. \<open>stdin\<close> holds the lines still to be read. The
  trace lists, in the order they happened, the reads of \<open>stdin\<close> and the writes and
  flushes that \<open>stdout\<close> and \<open>stderr\<close> accepted. A channel's credit is the number of
  write and flush calls it will still accept before each further call raises
  \<^verbatim>\<open>IOError\<close> (\<open>None\<close>: it never fails). \<open>logged\<close> holds the records handed to
  \<^verbatim>\<open>g_log\<close>, whose only handler is a \<^verbatim>\<open>NullHandler\<close>.
\<close>

datatype event =
    Stdin_readline string
  | Stdout_write string
  | Stdout_flush
  | Stderr_write string
  | Stderr_flush

datatype log_record = Log_info string | Log_exception string

record world =
  stdin :: "string list"
  stdout_credit :: "nat option"
  stderr_credit :: "nat option"
  trace :: "event list"
  logged :: "log_record list"

fun spend :: "nat option \<Rightarrow> nat option option" where
  "spend None = Some None"
| "spend (Some 0) = None"
| "spend (Some (Suc n)) = Some (Some n)"

text \<open>\<^verbatim>\<open>sys.stdin.readline()\<close>: the next line, or the empty string at end of stream.\<close>

definition stdin_readline :: "world \<Rightarrow> string \<times> world" where
  "stdin_readline w =
     (case stdin w of
        [] \<Rightarrow> ([], w\<lparr>trace := trace w @ [Stdin_readline []]\<rparr>)
      | l # ls \<Rightarrow> (l, w\<lparr>stdin := ls, trace := trace w @ [Stdin_readline l]\<rparr>))"

definition stdout_emit :: "event \<Rightarrow> world \<Rightarrow> (exn + unit) \<times> world" where
  "stdout_emit ev w =
     (case spend (stdout_credit w) of
        None \<Rightarrow> (Inl (IOError ''[Errno 32] Broken pipe''), w)
      | Some c \<Rightarrow> (Inr (), w\<lparr>stdout_credit := c, trace := trace w @ [ev]\<rparr>))"

definition stderr_emit :: "event \<Rightarrow> world \<Rightarrow> (exn + unit) \<times> world" where
  "stderr_emit ev w =
     (case spend (stderr_credit w) of
        None \<Rightarrow> (Inl (IOError ''[Errno 32] Broken pipe''), w)
      | Some c \<Rightarrow> (Inr (), w\<lparr>stderr_credit := c, trace := trace w @ [ev]\<rparr>))"

definition stdout_write :: "string \<Rightarrow> world \<Rightarrow> (exn + unit) \<times> world" where
  "stdout_write s w = stdout_emit (Stdout_write s) w"

definition stdout_flush :: "world \<Rightarrow> (exn + unit) \<times> world" where
  "stdout_flush w = stdout_emit Stdout_flush w"

definition stderr_write :: "string \<Rightarrow> world \<Rightarrow> (exn + unit) \<times> world" where
  "stderr_write s w = stderr_emit (Stderr_write s) w"

definition stderr_flush :: "world \<Rightarrow> (exn + unit) \<times> world" where
  "stderr_flush w = stderr_emit Stderr_flush w"

definition log_info :: "string \<Rightarrow> world \<Rightarrow> world" where
  "log_info msg w = w\<lparr>logged := logged w @ [Log_info msg]\<rparr>"

definition log_exception :: "string \<Rightarrow> world \<Rightarrow> world" where
  "log_exception msg w = w\<lparr>logged := logged w @ [Log_exception msg]\<rparr>"

text \<open>What each output channel received, read off the trace.\<close>

fun stdout_writes :: "event list \<Rightarrow> string list" where
  "stdout_writes [] = []"
| "stdout_writes (Stdout_write s # evs) = s # stdout_writes evs"
| "stdout_writes (ev # evs) = stdout_writes evs"

fun stderr_writes :: "event list \<Rightarrow> string list" where
  "stderr_writes [] = []"
| "stderr_writes (Stderr_write s # evs) = s # stderr_writes evs"
| "stderr_writes (ev # evs) = stderr_writes evs"

section \<open>The libraries the module calls\<close>

text \<open>
  The module is glue between libraries whose code is not part of it: the standard
  library (\<^verbatim>\<open>json\<close>, \<^verbatim>\<open>datetime\<close>, \<^verbatim>\<open>optparse\<close>, \<^verbatim>\<open>traceback\<close>), \<^verbatim>\<open>validictory\<close>, the
  parameter search \<^verbatim>\<open>getScalarMetricWithTimeOfDayParams\<close> and NuPIC's model, record
  encoder and anomaly likelihood. They are parameters of the embedding. A call either
  raises or returns; a stateful object (type \<open>'m\<close> the OPF model, \<open>'l\<close> the
  \<^verbatim>\<open>AnomalyLikelihood\<close>, \<open>'e\<close> the \<^verbatim>\<open>ModelRecordEncoder\<close>) is passed in and returned
  updated. \<open>'r\<close> is the type of encoded records.

  Taken for granted about the run time: \<^verbatim>\<open>readline\<close> does not raise; \<^verbatim>\<open>str\<close>, \<^verbatim>\<open>repr\<close>,
  \<^verbatim>\<open>traceback.format_exc\<close>, \<^verbatim>\<open>json.dumps\<close> and the logger return on the values the module
  hands them; no signal interrupts the process.
\<close>

record parsed_argv =
  po_modelId :: "string option"
  po_stats :: "string option"
  po_positional :: "string list"

record ('m, 'l, 'e, 'r) libs =
  json_loads :: "string \<Rightarrow> exn + pyval"
  json_dumps :: "pyval \<Rightarrow> string"
  utcfromtimestamp :: "pyval \<Rightarrow> exn + datetime"
  format_exc :: "exn \<Rightarrow> string"
  parse_args :: "string list \<Rightarrow> exn + parsed_argv"
  load_stats_schema :: "exn + pyval"
  validate :: "pyval \<Rightarrow> pyval \<Rightarrow> exn + unit"
  getScalarMetricWithTimeOfDayParams ::
    "pyval list \<Rightarrow> pyval \<Rightarrow> pyval \<Rightarrow> pyval \<Rightarrow> exn + pyval list"
  ModelFactory_create :: "pyval \<Rightarrow> exn + 'm"
  enableLearning :: "'m \<Rightarrow> exn + 'm"
  enableInference :: "'m \<Rightarrow> pyval \<Rightarrow> exn + 'm"
  ModelRecordEncoder :: "(string \<times> string \<times> string) list \<Rightarrow> exn + 'e"
  encode :: "'e \<Rightarrow> datetime \<times> pyval \<Rightarrow> exn + ('e \<times> 'r)"
  model_run :: "'m \<Rightarrow> 'r \<Rightarrow> exn + ('m \<times> pyval)"
  AnomalyLikelihood :: "exn + 'l"
  anomalyProbability :: "'l \<Rightarrow> pyval \<Rightarrow> pyval \<Rightarrow> datetime \<Rightarrow> exn + ('l \<times> pyval)"

section \<open>The module\<close>

subsection \<open>Command line\<close>

record Options =
  opt_modelId :: string
  opt_stats :: pyval

text \<open>
  \<^verbatim>\<open>_parseArgs\<close>. \<^verbatim>\<open>parser.error\<close> is overridden to raise \<^verbatim>\<open>_CommandLineArgError\<close>; only a
  \<^verbatim>\<open>ValidationError\<close> of the schema check is turned into one, any other exception passes
  through.
\<close>

definition parseArgs :: "('m, 'l, 'e, 'r) libs \<Rightarrow> string list \<Rightarrow> exn + Options" where
  "parseArgs libs argv =
     (case parse_args libs argv of
        Inl ex \<Rightarrow> Inl ex
      | Inr options \<Rightarrow>
          if length (po_positional options) \<noteq> 0 then
            Inl (CommandLineArgError ''Command accepts no positional args'')
          else if po_modelId options = None \<or> po_modelId options = Some [] then
            Inl (CommandLineArgError ''Missing or empty --modelId option value'')
          else if po_stats options = None \<or> po_stats options = Some [] then
            Inl (CommandLineArgError ''Missing or empty --stats option value'')
          else
            (case json_loads libs (the (po_stats options)) of
               Inl ex \<Rightarrow> Inl ex
             | Inr stats \<Rightarrow>
                 (case (case load_stats_schema libs of
                          Inl ex \<Rightarrow> Inl ex
                        | Inr schema \<Rightarrow> validate libs stats schema) of
                    Inl ex \<Rightarrow>
                      if isinstance ex ''ValidationError'' then
                        Inl (CommandLineArgError
                          (''--stats option value failed schema validation: '' @ py_repr ex))
                      else Inl ex
                  | Inr u \<Rightarrow>
                      Inr \<lparr>opt_modelId = the (po_modelId options), opt_stats = stats\<rparr>)))"

subsection \<open>The model runner\<close>

record ('m, 'l, 'e) ModelRunner =
  self_modelId :: string
  self_modelRecordEncoder :: 'e
  self_model :: 'm
  self_anomalyLikelihood :: 'l

text \<open>
  \<^verbatim>\<open>_INPUT_RECORD_SCHEMA\<close>: name, \<^verbatim>\<open>FieldMetaType\<close> and \<^verbatim>\<open>FieldMetaSpecial\<close> of the two
  columns.
\<close>

definition INPUT_RECORD_SCHEMA :: "(string \<times> string \<times> string) list" where
  "INPUT_RECORD_SCHEMA = [(''c0'', ''datetime'', ''timestamp''), (''c1'', ''float'', ''none'')]"

text \<open>\<^verbatim>\<open>_ModelRunner._createModel\<close>\<close>

definition createModel :: "('m, 'l, 'e, 'r) libs \<Rightarrow> pyval \<Rightarrow> exn + 'm" where
  "createModel libs stats =
     (case py_getitem stats ''min'' of Inl ex \<Rightarrow> Inl ex | Inr minVal \<Rightarrow>
     (case py_getitem stats ''max'' of Inl ex \<Rightarrow> Inl ex | Inr maxVal \<Rightarrow>
     (case py_get stats ''minResolution'' of Inl ex \<Rightarrow> Inl ex | Inr minResolution \<Rightarrow>
     (case getScalarMetricWithTimeOfDayParams libs [PInt 0] minVal maxVal minResolution of
        Inl ex \<Rightarrow> Inl ex | Inr possibleModels \<Rightarrow>
     (case py_first possibleModels of Inl ex \<Rightarrow> Inl ex | Inr swarmParams \<Rightarrow>
     (case py_getitem swarmParams ''modelConfig'' of Inl ex \<Rightarrow> Inl ex | Inr modelConfig \<Rightarrow>
     (case ModelFactory_create libs modelConfig of Inl ex \<Rightarrow> Inl ex | Inr model0 \<Rightarrow>
     (case enableLearning libs model0 of Inl ex \<Rightarrow> Inl ex | Inr model1 \<Rightarrow>
     (case py_getitem swarmParams ''inferenceArgs'' of Inl ex \<Rightarrow> Inl ex | Inr inferenceArgs \<Rightarrow>
      enableInference libs model1 inferenceArgs)))))))))"

text \<open>\<^verbatim>\<open>_ModelRunner.__init__\<close>\<close>

definition ModelRunner_init ::
  "('m, 'l, 'e, 'r) libs \<Rightarrow> string \<Rightarrow> pyval \<Rightarrow> exn + ('m, 'l, 'e) ModelRunner" where
  "ModelRunner_init libs modelId stats =
     (case ModelRecordEncoder libs INPUT_RECORD_SCHEMA of Inl ex \<Rightarrow> Inl ex | Inr encoder \<Rightarrow>
     (case createModel libs stats of Inl ex \<Rightarrow> Inl ex | Inr model0 \<Rightarrow>
     (case AnomalyLikelihood libs of Inl ex \<Rightarrow> Inl ex | Inr likelihood \<Rightarrow>
      Inr \<lparr>self_modelId = modelId, self_modelRecordEncoder = encoder,
           self_model = model0, self_anomalyLikelihood = likelihood\<rparr>)))"

text \<open>
  \<^verbatim>\<open>_ModelRunner._readInputMessages\<close>, one resumption of the generator: it reads a line
  and either yields the input row (\<open>Some\<close>), or ends at the empty string (\<open>None\<close>), or
  raises.
\<close>

definition readInputMessages ::
  "('m, 'l, 'e, 'r) libs \<Rightarrow> world \<Rightarrow> (exn + (datetime \<times> pyval) option) \<times> world" where
  "readInputMessages libs w =
     (case stdin_readline w of (message, w1) \<Rightarrow>
        if message \<noteq> [] then
          (case json_loads libs message of Inl ex \<Rightarrow> (Inl ex, w1) | Inr decoded \<Rightarrow>
          (case py_unpack2 decoded of Inl ex \<Rightarrow> (Inl ex, w1) | Inr (timestamp, scalarValue) \<Rightarrow>
          (case utcfromtimestamp libs timestamp of Inl ex \<Rightarrow> (Inl ex, w1) | Inr t \<Rightarrow>
           (Inr (Some (t, scalarValue)), w1))))
        else (Inr None, w1))"

text \<open>\<^verbatim>\<open>_ModelRunner._emitOutputMessage\<close>\<close>

definition emitOutputMessage ::
  "('m, 'l, 'e, 'r) libs \<Rightarrow> nat \<Rightarrow> pyval \<Rightarrow> world \<Rightarrow> (exn + unit) \<times> world" where
  "emitOutputMessage libs rowIndex probability w =
     (let message = json_dumps libs (PList [PInt (int rowIndex), probability]) @ newline
      in case stdout_write message w of
           (Inl ex, w1) \<Rightarrow> (Inl ex, w1)
         | (Inr u, w1) \<Rightarrow> stdout_flush w1)"

text \<open>\<^verbatim>\<open>_ModelRunner._computeAnomalyProbability\<close>\<close>

definition computeAnomalyProbability ::
  "('m, 'l, 'e, 'r) libs \<Rightarrow> ('m, 'l, 'e) ModelRunner \<Rightarrow> datetime \<times> pyval \<Rightarrow>
     exn + (pyval \<times> ('m, 'l, 'e) ModelRunner)" where
  "computeAnomalyProbability libs self inputRow =
     (case encode libs (self_modelRecordEncoder self) inputRow of
        Inl ex \<Rightarrow> Inl ex | Inr (encoder1, inputRecord) \<Rightarrow>
     (case model_run libs (self_model self) inputRecord of
        Inl ex \<Rightarrow> Inl ex | Inr (model1, inferences) \<Rightarrow>
     (case py_getitem inferences ''anomalyScore'' of
        Inl ex \<Rightarrow> Inl ex | Inr rawAnomalyScore \<Rightarrow>
     (case anomalyProbability libs (self_anomalyLikelihood self)
             (snd inputRow) rawAnomalyScore (fst inputRow) of
        Inl ex \<Rightarrow> Inl ex | Inr (likelihood1, probability) \<Rightarrow>
      Inr (probability,
           self\<lparr>self_modelRecordEncoder := encoder1, self_model := model1,
                self_anomalyLikelihood := likelihood1\<rparr>)))))"

text \<open>
  The \<^verbatim>\<open>for rowIndex, inputRow in enumerate(self._readInputMessages())\<close> loop of
  \<^verbatim>\<open>_ModelRunner.run\<close>, from row index \<open>rowIndex\<close> on.
\<close>

function run_loop ::
  "('m, 'l, 'e, 'r) libs \<Rightarrow> ('m, 'l, 'e) ModelRunner \<Rightarrow> nat \<Rightarrow> world \<Rightarrow>
     (exn + ('m, 'l, 'e) ModelRunner) \<times> world" where
  "run_loop libs self rowIndex w =
     (case readInputMessages libs w of
        (Inl ex, w1) \<Rightarrow> (Inl ex, w1)
      | (Inr None, w1) \<Rightarrow> (Inr self, w1)
      | (Inr (Some inputRow), w1) \<Rightarrow>
          (case computeAnomalyProbability libs self inputRow of
             Inl ex \<Rightarrow> (Inl ex, w1)
           | Inr (probability, self1) \<Rightarrow>
               (case emitOutputMessage libs rowIndex probability w1 of
                  (Inl ex, w2) \<Rightarrow> (Inl ex, w2)
                | (Inr u, w2) \<Rightarrow> run_loop libs self1 (Suc rowIndex) w2)))"
  by pat_completeness auto

termination run_loop
  apply (relation "measure (\<lambda>(libs, self, rowIndex, w). length (stdin w))")
   apply simp
  apply (auto simp: readInputMessages_def stdin_readline_def emitOutputMessage_def
      stdout_write_def stdout_flush_def stdout_emit_def Let_def
      split: list.splits sum.splits prod.splits if_splits option.splits)
  done

declare run_loop.simps [simp del]

text \<open>\<^verbatim>\<open>_ModelRunner.run\<close>\<close>

definition run ::
  "('m, 'l, 'e, 'r) libs \<Rightarrow> ('m, 'l, 'e) ModelRunner \<Rightarrow> world \<Rightarrow>
     (exn + ('m, 'l, 'e) ModelRunner) \<times> world" where
  "run libs self w =
     run_loop libs self 0 (log_info (''Processing model='' @ self_modelId self) w)"

subsection \<open>The entry point\<close>

text \<open>
  How the process ends: \<open>Returned\<close> when \<^verbatim>\<open>main\<close> returns and the interpreter shuts down
  in the normal way with status 0; \<open>Os_exit n\<close> when \<^verbatim>\<open>os._exit(n)\<close> ends the process on
  the spot, with no unwinding and no interpreter shutdown; \<open>Uncaught ex\<close> when an
  exception that does not derive from \<^verbatim>\<open>Exception\<close> leaves \<^verbatim>\<open>main\<close>, and the interpreter
  decides the status.
\<close>

datatype process_end = Returned | Os_exit nat | Uncaught exn

fun exit_status :: "process_end \<Rightarrow> nat option" where
  "exit_status Returned = Some 0"
| "exit_status (Os_exit n) = Some n"
| "exit_status (Uncaught ex) = None"

text \<open>The body of the \<^verbatim>\<open>try\<close> statement of \<^verbatim>\<open>main\<close>.\<close>

definition main_try ::
  "('m, 'l, 'e, 'r) libs \<Rightarrow> string list \<Rightarrow> world \<Rightarrow> (exn + unit) \<times> world" where
  "main_try libs argv w =
     (case parseArgs libs argv of Inl ex \<Rightarrow> (Inl ex, w) | Inr options \<Rightarrow>
     (case ModelRunner_init libs (opt_modelId options) (opt_stats options) of
        Inl ex \<Rightarrow> (Inl ex, w) | Inr self \<Rightarrow>
     (case run libs self w of
        (Inl ex, w1) \<Rightarrow> (Inl ex, w1)
      | (Inr self1, w1) \<Rightarrow> (Inr (), w1))))"

text \<open>The text that the handler writes: one JSON object and a newline.\<close>

definition errorMessage :: "('m, 'l, 'e, 'r) libs \<Rightarrow> exn \<Rightarrow> string" where
  "errorMessage libs ex =
     json_dumps libs
       (PDict [(''errorText'', PStr (py_or (py_str ex) (py_repr ex))),
               (''diagnosticInfo'', PStr (format_exc libs ex))])
     @ newline"

text \<open>The \<^verbatim>\<open>except Exception as ex\<close> clause of \<^verbatim>\<open>main\<close>.\<close>

definition main_except ::
  "('m, 'l, 'e, 'r) libs \<Rightarrow> exn \<Rightarrow> world \<Rightarrow> process_end \<times> world" where
  "main_except libs ex w =
     (let w1 = log_exception ''ModelRunner failed'' w;
          failed = (\<lambda>w'. log_exception
             (''Failed to emit error message to stderr; msg='' @ errorMessage libs ex) w');
          w4 = (case stderr_write (errorMessage libs ex) w1 of
                  (Inl ex2, w2) \<Rightarrow> failed w2
                | (Inr u, w2) \<Rightarrow>
                    (case stderr_flush w2 of
                       (Inl ex2, w3) \<Rightarrow> failed w3
                     | (Inr u, w3) \<Rightarrow> w3))
      in (Os_exit 1, w4))"

text \<open>\<^verbatim>\<open>main\<close>\<close>

definition main ::
  "('m, 'l, 'e, 'r) libs \<Rightarrow> string list \<Rightarrow> world \<Rightarrow> process_end \<times> world" where
  "main libs argv w =
     (case main_try libs argv w of
        (Inr u, w1) \<Rightarrow> (Returned, w1)
      | (Inl ex, w1) \<Rightarrow>
          if isinstance ex ''Exception'' then main_except libs ex w1
          else (Uncaught ex, w1))"

section \<open>Notions used to state the properties\<close>

text \<open>Lines 214 and 215: what the generator does with a non-empty line.\<close>

definition decode_message ::
  "('m, 'l, 'e, 'r) libs \<Rightarrow> string \<Rightarrow> exn + (datetime \<times> pyval)" where
  "decode_message libs message =
     (case json_loads libs message of Inl ex \<Rightarrow> Inl ex | Inr decoded \<Rightarrow>
     (case py_unpack2 decoded of Inl ex \<Rightarrow> Inl ex | Inr (timestamp, scalarValue) \<Rightarrow>
     (case utcfromtimestamp libs timestamp of Inl ex \<Rightarrow> Inl ex | Inr t \<Rightarrow>
      Inr (t, scalarValue))))"

text \<open>The world after \<^verbatim>\<open>readline\<close> has returned \<open>l\<close>.\<close>

definition after_read :: "string \<Rightarrow> world \<Rightarrow> world" where
  "after_read l w = w\<lparr>stdin := tl (stdin w), trace := trace w @ [Stdin_readline l]\<rparr>"

text \<open>The output line for a row index and a probability.\<close>

definition output_line :: "('m, 'l, 'e, 'r) libs \<Rightarrow> nat \<Rightarrow> pyval \<Rightarrow> string" where
  "output_line libs rowIndex probability =
     json_dumps libs (PList [PInt (int rowIndex), probability]) @ newline"

text \<open>Lines 194 to 198: the model built from one candidate of the parameter search.\<close>

definition model_from_params :: "('m, 'l, 'e, 'r) libs \<Rightarrow> pyval \<Rightarrow> exn + 'm" where
  "model_from_params libs swarmParams =
     (case py_getitem swarmParams ''modelConfig'' of Inl ex \<Rightarrow> Inl ex | Inr modelConfig \<Rightarrow>
     (case ModelFactory_create libs modelConfig of Inl ex \<Rightarrow> Inl ex | Inr model0 \<Rightarrow>
     (case enableLearning libs model0 of Inl ex \<Rightarrow> Inl ex | Inr model1 \<Rightarrow>
     (case py_getitem swarmParams ''inferenceArgs'' of Inl ex \<Rightarrow> Inl ex | Inr inferenceArgs \<Rightarrow>
      enableInference libs model1 inferenceArgs))))"

text \<open>
  The shape of the channel events of one run of the loop: rounds of a read of a non-empty
  line, the write of one line and its flush, and then the round that ends the loop. That
  last round is the read of the empty string when the loop ended normally (\<open>ok\<close>);
  otherwise it is the read of a non-empty line, followed by nothing when the failure came
  before the write, or by the write alone when the flush failed.
\<close>

fun lockstep :: "bool \<Rightarrow> event list \<Rightarrow> bool" where
  "lockstep ok [Stdin_readline l] = (ok = (l = []))"
| "lockstep ok [Stdin_readline l, Stdout_write s] = (\<not> ok \<and> l \<noteq> [])"
| "lockstep ok (Stdin_readline l # Stdout_write s # Stdout_flush # evs) =
     (l \<noteq> [] \<and> lockstep ok evs)"
| "lockstep ok evs = False"

fun is_stderr :: "event \<Rightarrow> bool" where
  "is_stderr (Stderr_write s) = True"
| "is_stderr Stderr_flush = True"
| "is_stderr ev = False"

fun is_readline :: "event \<Rightarrow> bool" where
  "is_readline (Stdin_readline l) = True"
| "is_readline ev = False"

text \<open>A JSON number, and a probability.\<close>

fun is_number :: "pyval \<Rightarrow> bool" where
  "is_number (PInt n) = True"
| "is_number (PFloat x) = True"
| "is_number v = False"

fun unit_probability :: "pyval \<Rightarrow> bool" where
  "unit_probability (PFloat x) = (0 \<le> x \<and> x \<le> 1)"
| "unit_probability v = False"

text \<open>
  A message of the input protocol: a JSON array of exactly two numbers.
\<close>

fun valid_message :: "pyval \<Rightarrow> bool" where
  "valid_message (PList [t, v]) = (is_number t \<and> is_number v)"
| "valid_message v = False"

text \<open>
  A valid input record: a non-empty line that decodes to a message of the protocol whose
  first number is a time that \<^verbatim>\<open>datetime\<close> can represent.
\<close>

definition valid_record :: "('m, 'l, 'e, 'r) libs \<Rightarrow> string \<Rightarrow> bool" where
  "valid_record libs l =
     (l \<noteq> [] \<and>
      (case json_loads libs l of
         Inl ex \<Rightarrow> False
       | Inr decoded \<Rightarrow>
           valid_message decoded \<and>
           (case py_unpack2 decoded of
              Inl ex \<Rightarrow> False
            | Inr (timestamp, scalarValue) \<Rightarrow> \<not> isl (utcfromtimestamp libs timestamp))))"

text \<open>
  The contract of the collaborators at the boundary: the encoder accepts every row with a
  numeric value, the model scores every record and reports an \<^verbatim>\<open>anomalyScore\<close>, and the
  likelihood estimator returns a probability between 0 and 1.
\<close>

definition healthy :: "('m, 'l, 'e, 'r) libs \<Rightarrow> bool" where
  "healthy libs =
     ((\<forall>e t v. is_number v \<longrightarrow> \<not> isl (encode libs e (t, v))) \<and>
      (\<forall>m r. case model_run libs m r of
                Inl ex \<Rightarrow> False
              | Inr (m1, inferences) \<Rightarrow> \<not> isl (py_getitem inferences ''anomalyScore'')) \<and>
      (\<forall>l v s t. case anomalyProbability libs l v s t of
                Inl ex \<Rightarrow> False
              | Inr (l1, p) \<Rightarrow> unit_probability p))"

text \<open>A process that has just started: nothing read, nothing written.\<close>

definition fresh_world :: "string list \<Rightarrow> nat option \<Rightarrow> nat option \<Rightarrow> world" where
  "fresh_world ls out_credit err_credit =
     \<lparr>stdin = ls, stdout_credit = out_credit, stderr_credit = err_credit,
      trace = [], logged = []\<rparr>"

section \<open>The anomaly likelihood estimator, after its specification\<close>

text \<open>
  Modelled from the spec: the anomaly likelihood estimator (\<^verbatim>\<open>AnomalyLikelihood\<close> of
  \<^verbatim>\<open>nupic.algorithms.anomaly_likelihood\<close>) is imported by the module and its code is not
  among the sources. The definitions below follow section 4.3 of the specification: a
  bounded sliding history of (value, raw score, timestamp) observations from which older
  observations are displaced; a distribution (mean, variance) re-estimated periodically over
  the historical raw scores without a short suffix of the most recent ones; the probability
  that the fitted distribution gives to the average of the raw scores of a short recent
  window; one minus that probability as the result; the neutral default 0.5 before enough
  history has accumulated to fit a distribution, and for a distribution of variance zero.
  The sizes of the windows and the refit cadence are internal constants that the
  specification leaves open, and so is the distribution function: they are parameters.
\<close>

record estimator_params =
  history_cap :: nat
  min_history :: nat
  refit_every :: nat
  excluded_suffix :: nat
  short_window :: nat
  tail_probability :: "real \<Rightarrow> real \<Rightarrow> real \<Rightarrow> real"

record estimator_state =
  history :: "(real \<times> real \<times> datetime) list"
  distribution :: "(real \<times> real) option"
  calls :: nat

definition estimator_init :: estimator_state where
  "estimator_init = \<lparr>history = [], distribution = None, calls = 0\<rparr>"

definition mean :: "real list \<Rightarrow> real" where
  "mean xs = sum_list xs / real (length xs)"

definition fit_distribution :: "real list \<Rightarrow> (real \<times> real) option" where
  "fit_distribution xs =
     (if xs = [] then None
      else Some (mean xs, mean (map (\<lambda>x. (x - mean xs) * (x - mean xs)) xs)))"

text \<open>
  Modelled from the spec: the update of the estimator (\<^verbatim>\<open>AnomalyLikelihood.anomalyProbability\<close>,
  whose code is not among the sources), after the contract
  \<^verbatim>\<open>update(value, rawScore, timestamp) -> probability\<close> of section 4.3.
\<close>

definition estimator_update ::
  "estimator_params \<Rightarrow> estimator_state \<Rightarrow> real \<Rightarrow> real \<Rightarrow> datetime \<Rightarrow>
     real \<times> estimator_state" where
  "estimator_update params st v rawScore timestamp =
     (let hist = history st @ [(v, rawScore, timestamp)];
          hist1 = drop (length hist - history_cap params) hist;
          st1 = st\<lparr>history := hist1, calls := Suc (calls st)\<rparr>
      in if length (history st) < min_history params then (1 / 2, st1)
         else
           (let scores = map (\<lambda>(v, s, t). s) hist1;
                dist = (if distribution st = None \<or> calls st mod refit_every params = 0
                        then fit_distribution
                               (take (length scores - excluded_suffix params) scores)
                        else distribution st);
                recent = drop (length scores - short_window params) scores
            in case dist of
                 None \<Rightarrow> (1 / 2, st1)
               | Some (mu, var) \<Rightarrow>
                   if var = 0 \<or> recent = [] then (1 / 2, st1\<lparr>distribution := dist\<rparr>)
                   else (1 - tail_probability params mu var (mean recent),
                         st1\<lparr>distribution := dist\<rparr>)))"

text \<open>The results of a sequence of updates, made in order.\<close>

fun estimator_feed ::
  "estimator_params \<Rightarrow> estimator_state \<Rightarrow> (real \<times> real \<times> datetime) list \<Rightarrow> real list" where
  "estimator_feed params st [] = []"
| "estimator_feed params st ((v, rawScore, timestamp) # obs) =
     (case estimator_update params st v rawScore timestamp of
        (p, st1) \<Rightarrow> p # estimator_feed params st1 obs)"

section \<open>Stand-ins for the libraries, for the examples\<close>

text \<open>
  Small stand-ins for the libraries, on which the examples are evaluated. The JSON decoder
  knows the lines of the examples and rejects every other text; the encoder checks that
  the value is a number; the model counts the records it has seen; the estimator answers
  0.5. The timestamp conversion takes a number of seconds and, as Python's does, a
  \<^verbatim>\<open>bool\<close> for the integer it is.
\<close>

definition double_quoted :: "string \<Rightarrow> string" where
  "double_quoted s = [CHR 0x22] @ s @ [CHR 0x22]"

definition demo_stats_text :: string where
  "demo_stats_text =
     ''{'' @ double_quoted ''min'' @ '': 0, '' @ double_quoted ''max'' @ '': 100}''"

definition demo_json_loads :: "string \<Rightarrow> exn + pyval" where
  "demo_json_loads s =
     (case map_of
        [(''[0, 10]'' @ newline, PList [PInt 0, PInt 10]),
         (''[60, 12]'' @ newline, PList [PInt 60, PInt 12]),
         (''[120, 11]'' @ newline, PList [PInt 120, PInt 11]),
         (''[1]'' @ newline, PList [PInt 1]),
         (''[true, 5]'' @ newline, PList [PBool True, PInt 5]),
         (demo_stats_text, PDict [(''min'', PInt 0), (''max'', PInt 100)])] s of
        Some v \<Rightarrow> Inr v
      | None \<Rightarrow> Inl (ValueError ''No JSON object could be decoded''))"

definition decimal_digit :: "nat \<Rightarrow> string" where
  "decimal_digit n = [char_of (48 + n mod 10)]"

definition demo_json_dumps :: "pyval \<Rightarrow> string" where
  "demo_json_dumps v =
     (case v of
        PList [PInt i, PFloat p] \<Rightarrow>
          ''['' @ decimal_digit (nat i) @ '', '' @ decimal_digit (nat \<lfloor>p\<rfloor>) @ ''.''
            @ decimal_digit (nat \<lfloor>p * 10\<rfloor>) @ '']''
      | PDict [(k1, PStr s1), (k2, PStr s2)] \<Rightarrow>
          ''{'' @ double_quoted k1 @ '': '' @ double_quoted s1 @ '', ''
            @ double_quoted k2 @ '': '' @ double_quoted s2 @ ''}''
      | _ \<Rightarrow> ''null'')"

fun demo_utcfromtimestamp :: "pyval \<Rightarrow> exn + datetime" where
  "demo_utcfromtimestamp (PInt n) = Inr (Datetime (n * 1000000))"
| "demo_utcfromtimestamp (PFloat x) = Inr (Datetime (round (x * 1000000)))"
| "demo_utcfromtimestamp (PBool b) = Inr (Datetime (if b then 1000000 else 0))"
| "demo_utcfromtimestamp v = Inl (TypeError ''a float is required'')"

fun demo_parse_args :: "string list \<Rightarrow> exn + parsed_argv" where
  "demo_parse_args [] = Inr \<lparr>po_modelId = None, po_stats = None, po_positional = []\<rparr>"
| "demo_parse_args [a, m, b, s] =
     (if a = ''--model'' \<and> b = ''--stats''
      then Inr \<lparr>po_modelId = Some m, po_stats = Some s, po_positional = []\<rparr>
      else Inl (CommandLineArgError (''no such option: '' @ a)))"
| "demo_parse_args (a # as) = Inl (CommandLineArgError (''no such option: '' @ a))"

definition ValidationError :: "string \<Rightarrow> exn" where
  "ValidationError msg =
     (ValueError msg)\<lparr>exn_class := ''ValidationError'',
        exn_bases := [''ValueError'', ''StandardError'', ''Exception'', ''BaseException'']\<rparr>"

definition demo_validate :: "pyval \<Rightarrow> pyval \<Rightarrow> exn + unit" where
  "demo_validate stats schema =
     (case py_getitem stats ''min'' of
        Inl ex \<Rightarrow> Inl (ValidationError ''Required field min is missing'')
      | Inr a \<Rightarrow>
          (case py_getitem stats ''max'' of
             Inl ex \<Rightarrow> Inl (ValidationError ''Required field max is missing'')
           | Inr b \<Rightarrow>
               if is_number a \<and> is_number b then Inr ()
               else Inl (ValidationError ''Value is not of type number'')))"

text \<open>A search that ranks two candidates, and one that finds none.\<close>

definition demo_search :: "pyval list \<Rightarrow> pyval \<Rightarrow> pyval \<Rightarrow> pyval \<Rightarrow> exn + pyval list" where
  "demo_search metricData minVal maxVal minResolution =
     Inr [PDict [(''modelConfig'', PDict [(''minVal'', minVal), (''maxVal'', maxVal)]),
                 (''inferenceArgs'', PDict [])],
          PDict [(''modelConfig'', PDict [(''minVal'', minVal), (''maxVal'', PInt 0)]),
                 (''inferenceArgs'', PDict [])]]"

definition demo_encode :: "nat \<Rightarrow> datetime \<times> pyval \<Rightarrow> exn + (nat \<times> (datetime \<times> pyval))" where
  "demo_encode e row =
     (if is_number (snd row) then Inr (Suc e, row)
      else Inl (TypeError ''unsupported operand type''))"

definition demo_libs :: "(pyval \<times> nat, nat, nat, datetime \<times> pyval) libs" where
  "demo_libs =
     \<lparr>json_loads = demo_json_loads,
      json_dumps = demo_json_dumps,
      utcfromtimestamp = demo_utcfromtimestamp,
      format_exc = (\<lambda>ex. ''Traceback (most recent call last): '' @ exn_class ex),
      parse_args = demo_parse_args,
      load_stats_schema = Inr (PDict []),
      validate = demo_validate,
      getScalarMetricWithTimeOfDayParams = demo_search,
      ModelFactory_create = (\<lambda>modelConfig. Inr (modelConfig, 0)),
      enableLearning = Inr,
      enableInference = (\<lambda>m inferenceArgs. Inr m),
      ModelRecordEncoder = (\<lambda>fields. Inr 0),
      encode = demo_encode,
      model_run = (\<lambda>m r. Inr ((fst m, Suc (snd m)), PDict [(''anomalyScore'', PFloat 0)])),
      AnomalyLikelihood = Inr 0,
      anomalyProbability = (\<lambda>l v s t. Inr (Suc l, PFloat (1 / 2)))\<rparr>"

definition demo_argv :: "string list" where
  "demo_argv = [''--model'', ''m1'', ''--stats'', demo_stats_text]"

definition demo_self :: "(pyval \<times> nat, nat, nat) ModelRunner" where
  "demo_self =
     \<lparr>self_modelId = ''m1'', self_modelRecordEncoder = 0,
      self_model = (PDict [(''minVal'', PInt 0), (''maxVal'', PInt 100)], 0),
      self_anomalyLikelihood = 0\<rparr>"

definition demo_params :: estimator_params where
  "demo_params =
     \<lparr>history_cap = 5, min_history = 2, refit_every = 2, excluded_suffix = 1,
      short_window = 2,
      tail_probability =
        (\<lambda>mu var x. if x \<le> mu then 1 else min 1 (var / ((x - mu) * (x - mu))))\<rparr>"

text \<open>Whether a channel with this credit accepts its next \<open>k\<close> calls.\<close>

fun accepts :: "nat option \<Rightarrow> nat \<Rightarrow> bool" where
  "accepts None k = True"
| "accepts (Some n) k = (k \<le> n)"

text \<open>An exception raised without arguments: \<^verbatim>\<open>RuntimeError()\<close>.\<close>

definition demo_bare_error :: exn where
  "demo_bare_error =
     \<lparr>exn_class = ''RuntimeError'',
      exn_bases = [''StandardError'', ''Exception'', ''BaseException''],
      exn_str = [], exn_args_repr = []\<rparr>"

text \<open>The scenario of the specification: three samples, one minute apart.\<close>

definition demo_scenario :: world where
  "demo_scenario =
     fresh_world [''[0, 10]'' @ newline, ''[60, 12]'' @ newline, ''[120, 11]'' @ newline]
       None None"

text \<open>The stats of the examples, decoded.\<close>

definition demo_stats :: pyval where
  "demo_stats = PDict [(''min'', PInt 0), (''max'', PInt 100)]"

section \<open>One round of the loop\<close>

lemma readInputMessages_Nil:
  "stdin w = [] \<Longrightarrow> readInputMessages libs w = (Inr None, after_read [] w)"
  by (simp add: readInputMessages_def stdin_readline_def after_read_def)

lemma readInputMessages_empty_line:
  "stdin w = [] # ls \<Longrightarrow> readInputMessages libs w = (Inr None, after_read [] w)"
  by (simp add: readInputMessages_def stdin_readline_def after_read_def)

lemma readInputMessages_Cons:
  "stdin w = l # ls \<Longrightarrow> l \<noteq> [] \<Longrightarrow>
   readInputMessages libs w =
     (case decode_message libs l of Inl ex \<Rightarrow> Inl ex | Inr row \<Rightarrow> Inr (Some row),
      after_read l w)"
  by (simp add: readInputMessages_def stdin_readline_def after_read_def decode_message_def
      split: sum.splits prod.splits)

lemma run_loop_Nil:
  "stdin w = [] \<Longrightarrow> run_loop libs self i w = (Inr self, after_read [] w)"
  by (subst run_loop.simps) (simp add: readInputMessages_Nil)

lemma run_loop_empty_line:
  "stdin w = [] # ls \<Longrightarrow> run_loop libs self i w = (Inr self, after_read [] w)"
  by (subst run_loop.simps) (simp add: readInputMessages_empty_line)

lemma run_loop_Cons:
  "stdin w = l # ls \<Longrightarrow> l \<noteq> [] \<Longrightarrow>
   run_loop libs self i w =
     (case decode_message libs l of
        Inl ex \<Rightarrow> (Inl ex, after_read l w)
      | Inr row \<Rightarrow>
          (case computeAnomalyProbability libs self row of
             Inl ex \<Rightarrow> (Inl ex, after_read l w)
           | Inr (p, self1) \<Rightarrow>
               (case emitOutputMessage libs i p (after_read l w) of
                  (Inl ex, w2) \<Rightarrow> (Inl ex, w2)
                | (Inr u, w2) \<Rightarrow> run_loop libs self1 (Suc i) w2)))"
  by (subst run_loop.simps) (simp add: readInputMessages_Cons split: sum.splits)

lemma emitOutputMessage_cases:
  assumes "emitOutputMessage libs i p w = (r, w2)"
  shows "stdin w2 = stdin w \<and> stderr_credit w2 = stderr_credit w \<and> logged w2 = logged w \<and>
    (r = Inr () \<and> trace w2 = trace w @ [Stdout_write (output_line libs i p), Stdout_flush]
       \<and> stdout_credit w2 = (case stdout_credit w of None \<Rightarrow> None | Some n \<Rightarrow> Some (n - 2))
     \<or> isl r \<and> trace w2 = trace w \<and> stdout_credit w = Some 0
     \<or> isl r \<and> trace w2 = trace w @ [Stdout_write (output_line libs i p)] \<and> stdout_credit w = Some 1)"
proof (cases "stdout_credit w")
  case None
  with assms show ?thesis
    by (auto simp: emitOutputMessage_def stdout_write_def stdout_flush_def stdout_emit_def
        output_line_def Let_def)
next
  case (Some n)
  show ?thesis
  proof (cases n)
    case 0
    with Some assms show ?thesis
      by (auto simp: emitOutputMessage_def stdout_write_def stdout_flush_def stdout_emit_def
          output_line_def Let_def)
  next
    case (Suc k)
    with Some assms show ?thesis
      by (cases k) (auto simp: emitOutputMessage_def stdout_write_def stdout_flush_def stdout_emit_def
          output_line_def Let_def)
  qed
qed

lemma after_read_simps [simp]:
  "stdin (after_read l w) = tl (stdin w)"
  "trace (after_read l w) = trace w @ [Stdin_readline l]"
  "stdout_credit (after_read l w) = stdout_credit w"
  "stderr_credit (after_read l w) = stderr_credit w"
  "logged (after_read l w) = logged w"
  by (simp_all add: after_read_def)

lemma run_loop_lockstep:
  "stdin w = ls \<Longrightarrow> run_loop libs self i w = (r, w') \<Longrightarrow>
   \<exists>evs. trace w' = trace w @ evs \<and> lockstep (\<not> isl r) evs"
proof (induction ls arbitrary: self i w)
  case Nil
  then show ?case by (auto simp: run_loop_Nil)
next
  case (Cons l ls)
  show ?case
  proof (cases "l = []")
    case True
    with Cons.prems show ?thesis by (auto simp: run_loop_empty_line)
  next
    case False
    note step = run_loop_Cons [OF Cons.prems(1) False, of libs self i]
    show ?thesis
    proof (cases "decode_message libs l")
      case (Inl ex)
      with step Cons.prems(2) False show ?thesis by auto
    next
      case (Inr row)
      show ?thesis
      proof (cases "computeAnomalyProbability libs self row")
        case (Inl ex)
        with step Inr Cons.prems(2) False show ?thesis by auto
      next
        case (Inr ps)
        obtain p self1 where ps: "ps = (p, self1)" by (cases ps)
        obtain r2 w2 where em: "emitOutputMessage libs i p (after_read l w) = (r2, w2)"
          by (cases "emitOutputMessage libs i p (after_read l w)")
        note ec = emitOutputMessage_cases [OF em]
        show ?thesis
        proof (cases r2)
          case (Inl ex)
          with step \<open>decode_message libs l = Inr row\<close> Inr ps em Cons.prems(2)
          have "r = Inl ex" "w' = w2" by auto
          with ec Inl False show ?thesis by auto
        next
          case (Inr u)
          with step \<open>decode_message libs l = Inr row\<close> \<open>computeAnomalyProbability libs self row = Inr ps\<close> ps em Cons.prems(2)
          have rec: "run_loop libs self1 (Suc i) w2 = (r, w')" by auto
          from ec Cons.prems(1) have "stdin w2 = ls" by simp
          from Cons.IH [OF this rec] obtain evs where
            evs: "trace w' = trace w2 @ evs" "lockstep (\<not> isl r) evs" by blast
          from ec Inr have "trace w2 = trace w @ [Stdin_readline l, Stdout_write (output_line libs i p), Stdout_flush]"
            by auto
          with evs False show ?thesis by auto
        qed
      qed
    qed
  qed
qed

section \<open>What the loop and the handler leave behind\<close>

lemma lockstep_no_stderr: "lockstep ok evs \<Longrightarrow> filter is_stderr evs = []"
  by (induction ok evs rule: lockstep.induct) auto

lemma run_loop_frame:
  "stdin w = ls \<Longrightarrow> run_loop libs self i w = (r, w') \<Longrightarrow>
   stderr_credit w' = stderr_credit w \<and> logged w' = logged w"
proof (induction ls arbitrary: self i w)
  case Nil
  then show ?case by (auto simp: run_loop_Nil)
next
  case (Cons l ls)
  show ?case
  proof (cases "l = []")
    case True
    with Cons.prems show ?thesis by (auto simp: run_loop_empty_line)
  next
    case False
    note step = run_loop_Cons [OF Cons.prems(1) False, of libs self i]
    show ?thesis
    proof (cases "decode_message libs l")
      case (Inl ex)
      with step Cons.prems(2) show ?thesis by auto
    next
      case (Inr row)
      note row = this
      show ?thesis
      proof (cases "computeAnomalyProbability libs self row")
        case (Inl ex)
        with step row Cons.prems(2) show ?thesis by auto
      next
        case (Inr ps)
        obtain p self1 where ps: "ps = (p, self1)" by (cases ps)
        obtain r2 w2 where em: "emitOutputMessage libs i p (after_read l w) = (r2, w2)"
          by (cases "emitOutputMessage libs i p (after_read l w)")
        from emitOutputMessage_cases [OF em]
        have fr: "stdin w2 = ls" "stderr_credit w2 = stderr_credit w" "logged w2 = logged w"
          using Cons.prems(1) by simp_all
        show ?thesis
        proof (cases r2)
          case (Inl ex)
          with step row Inr ps em Cons.prems(2) have "w' = w2" by auto
          with fr show ?thesis by simp
        next
          case (Inr u)
          with step row \<open>computeAnomalyProbability libs self row = Inr ps\<close> ps em Cons.prems(2)
          have "run_loop libs self1 (Suc i) w2 = (r, w')" by auto
          from Cons.IH [OF fr(1) this] fr show ?thesis by simp
        qed
      qed
    qed
  qed
qed

lemma run_frame:
  assumes "run libs self w = (r, w')"
  shows "stderr_credit w' = stderr_credit w"
    and "logged w' = logged w @ [Log_info (''Processing model='' @ self_modelId self)]"
    and "\<exists>evs. trace w' = trace w @ evs \<and> lockstep (\<not> isl r) evs"
proof -
  let ?w0 = "log_info (''Processing model='' @ self_modelId self) w"
  from assms have rl: "run_loop libs self 0 ?w0 = (r, w')" by (simp add: run_def)
  from run_loop_frame [OF refl rl]
  show "stderr_credit w' = stderr_credit w"
    and "logged w' = logged w @ [Log_info (''Processing model='' @ self_modelId self)]"
    by (simp_all add: log_info_def)
  from run_loop_lockstep [OF refl rl]
  show "\<exists>evs. trace w' = trace w @ evs \<and> lockstep (\<not> isl r) evs"
    by (simp add: log_info_def)
qed

lemma main_try_frame:
  assumes "main_try libs argv w = (r, w1)"
  shows "stderr_credit w1 = stderr_credit w"
    and "\<exists>evs. trace w1 = trace w @ evs \<and> filter is_stderr evs = []"
proof -
  have "stderr_credit w1 = stderr_credit w \<and>
        (\<exists>evs. trace w1 = trace w @ evs \<and> filter is_stderr evs = [])"
  proof (cases "parseArgs libs argv")
    case (Inl ex)
    with assms show ?thesis by (auto simp: main_try_def)
  next
    case (Inr options)
    note opts = this
    show ?thesis
    proof (cases "ModelRunner_init libs (opt_modelId options) (opt_stats options)")
      case (Inl ex)
      with assms opts show ?thesis by (auto simp: main_try_def)
    next
      case (Inr self)
      obtain r2 w2 where rn: "run libs self w = (r2, w2)" by (cases "run libs self w")
      with assms opts Inr have "w1 = w2" by (auto simp: main_try_def split: sum.splits)
      with run_frame [OF rn] show ?thesis by (auto dest: lockstep_no_stderr)
    qed
  qed
  then show "stderr_credit w1 = stderr_credit w"
    and "\<exists>evs. trace w1 = trace w @ evs \<and> filter is_stderr evs = []" by auto
qed

lemma main_except_ok:
  assumes "stderr_credit w = None \<or> (\<exists>n. stderr_credit w = Some (Suc (Suc n)))"
  shows "\<exists>w'. main_except libs ex w = (Os_exit 1, w') \<and>
           trace w' = trace w @ [Stderr_write (errorMessage libs ex), Stderr_flush] \<and>
           logged w' = logged w @ [Log_exception ''ModelRunner failed'']"
  using assms
  by (auto simp: main_except_def stderr_write_def stderr_flush_def stderr_emit_def
      log_exception_def Let_def)

lemma main_except_flush_fails:
  assumes "stderr_credit w = Some 1"
  shows "\<exists>w'. main_except libs ex w = (Os_exit 1, w') \<and>
           trace w' = trace w @ [Stderr_write (errorMessage libs ex)] \<and>
           logged w' = logged w @ [Log_exception ''ModelRunner failed'',
             Log_exception (''Failed to emit error message to stderr; msg='' @ errorMessage libs ex)]"
  using assms
  by (auto simp: main_except_def stderr_write_def stderr_flush_def stderr_emit_def
      log_exception_def Let_def)

lemma main_except_write_fails:
  assumes "stderr_credit w = Some 0"
  shows "\<exists>w'. main_except libs ex w = (Os_exit 1, w') \<and>
           trace w' = trace w \<and>
           logged w' = logged w @ [Log_exception ''ModelRunner failed'',
             Log_exception (''Failed to emit error message to stderr; msg='' @ errorMessage libs ex)]"
  using assms
  by (auto simp: main_except_def stderr_write_def stderr_flush_def stderr_emit_def
      log_exception_def Let_def)

lemma main_failure:
  assumes "main_try libs argv w = (Inl ex, w1)" and "isinstance ex ''Exception''"
  shows "main libs argv w = main_except libs ex w1"
  using assms by (simp add: main_def)

lemma stderr_writes_append: "stderr_writes (xs @ ys) = stderr_writes xs @ stderr_writes ys"
  by (induction xs rule: stderr_writes.induct) auto

lemma stdout_writes_append: "stdout_writes (xs @ ys) = stdout_writes xs @ stdout_writes ys"
  by (induction xs rule: stdout_writes.induct) auto

lemma stderr_writes_filter: "filter is_stderr evs = [] \<Longrightarrow> stderr_writes evs = []"
  by (induction evs rule: stderr_writes.induct) auto

lemma accepts_2: "accepts c 2 \<Longrightarrow> c = None \<or> (\<exists>n. c = Some (Suc (Suc n)))"
  by (cases c) (auto simp: numeral_2_eq_2 Suc_le_eq dest!: less_imp_Suc_add)

lemma errorMessage_shape:
  "errorMessage libs ex =
     json_dumps libs
       (PDict [(''errorText'', PStr (if py_str ex \<noteq> [] then py_str ex else py_repr ex)),
               (''diagnosticInfo'', PStr (format_exc libs ex))]) @ newline"
  by (simp add: errorMessage_def py_or_def)

lemma demo_main_try_wrong_arity:
  "main_try demo_libs demo_argv (fresh_world [''[1]'' @ newline] None c) =
     (Inl (ValueError ''need more than 1 value to unpack''),
      \<lparr>stdin = [], stdout_credit = None, stderr_credit = c,
       trace = [Stdin_readline (''[1]'' @ newline)],
       logged = [Log_info ''Processing model=m1'']\<rparr>)"
  by code_simp

lemma demo_ValueError_is_Exception: "isinstance (ValueError msg) ''Exception''"
  by (simp add: isinstance_def ValueError_def standard_error_def)

lemma py_repr_nonempty: "py_repr ex \<noteq> []"
  by (simp add: py_repr_def)

lemma demo_main_try_bare_error:
  "main_try (demo_libs\<lparr>AnomalyLikelihood := Inl demo_bare_error\<rparr>) demo_argv
      (fresh_world [] None None) = (Inl demo_bare_error, fresh_world [] None None)"
  by code_simp

section \<open>Valid records and healthy libraries\<close>

lemma valid_message_cases:
  "valid_message d \<Longrightarrow> \<exists>t v. d = PList [t, v] \<and> is_number t \<and> is_number v"
  by (induction d rule: valid_message.induct) auto

lemma valid_record_decode:
  assumes "valid_record libs l"
  shows "l \<noteq> []" and "\<exists>t v. decode_message libs l = Inr (t, v) \<and> is_number v"
proof -
  from assms show "l \<noteq> []" by (simp add: valid_record_def)
  from assms obtain d where d: "json_loads libs l = Inr d" "valid_message d"
    and u: "case py_unpack2 d of Inl ex \<Rightarrow> False
            | Inr (timestamp, scalarValue) \<Rightarrow> \<not> isl (utcfromtimestamp libs timestamp)"
    by (auto simp: valid_record_def split: sum.splits)
  from valid_message_cases [OF d(2)] obtain t v where
    tv: "d = PList [t, v]" "is_number v" by blast
  with u obtain t' where "utcfromtimestamp libs t = Inr t'"
    by (cases "utcfromtimestamp libs t") auto
  with d tv show "\<exists>t v. decode_message libs l = Inr (t, v) \<and> is_number v"
    by (simp add: decode_message_def)
qed

lemma healthy_encode:
  assumes "healthy libs" and "is_number v"
  shows "\<exists>e1 r. encode libs e (t, v) = Inr (e1, r)"
proof -
  from assms have "\<not> isl (encode libs e (t, v))" unfolding healthy_def by blast
  then show ?thesis by (cases "encode libs e (t, v)") auto
qed

lemma healthy_model_run:
  assumes "healthy libs"
  shows "\<exists>m1 inferences s. model_run libs m r = Inr (m1, inferences) \<and>
           py_getitem inferences ''anomalyScore'' = Inr s"
proof -
  from assms have h: "case model_run libs m r of
                Inl ex \<Rightarrow> False
              | Inr (m1, inferences) \<Rightarrow> \<not> isl (py_getitem inferences ''anomalyScore'')"
    unfolding healthy_def by blast
  show ?thesis
  proof (cases "model_run libs m r")
    case (Inl ex)
    with h show ?thesis by simp
  next
    case (Inr mi)
    obtain m1 inferences where mi: "mi = (m1, inferences)" by (cases mi)
    with h Inr have "\<not> isl (py_getitem inferences ''anomalyScore'')" by simp
    then obtain s where "py_getitem inferences ''anomalyScore'' = Inr s"
      by (cases "py_getitem inferences ''anomalyScore''") auto
    with Inr mi show ?thesis by simp
  qed
qed

lemma healthy_estimator:
  assumes "healthy libs"
  shows "\<exists>l1 p. anomalyProbability libs l v s t = Inr (l1, p) \<and> unit_probability p"
proof -
  from assms have h: "case anomalyProbability libs l v s t of
                Inl ex \<Rightarrow> False
              | Inr (l1, p) \<Rightarrow> unit_probability p"
    unfolding healthy_def by blast
  show ?thesis
  proof (cases "anomalyProbability libs l v s t")
    case (Inl ex)
    with h show ?thesis by simp
  next
    case (Inr lp)
    obtain l1 p where "lp = (l1, p)" by (cases lp)
    with h Inr show ?thesis by simp
  qed
qed

lemma healthy_compute:
  assumes "healthy libs" and "is_number (snd row)"
  shows "\<exists>p self1. computeAnomalyProbability libs self row = Inr (p, self1) \<and> unit_probability p"
proof -
  obtain t v where row: "row = (t, v)" by (cases row)
  from healthy_encode [OF assms(1), of v "self_modelRecordEncoder self" t] assms(2) row
  obtain e1 r where
    enc: "encode libs (self_modelRecordEncoder self) row = Inr (e1, r)" by auto
  from healthy_model_run [OF assms(1), of "self_model self" r]
  obtain m1 inferences s where
    mr: "model_run libs (self_model self) r = Inr (m1, inferences)"
    and sc: "py_getitem inferences ''anomalyScore'' = Inr s" by blast
  from healthy_estimator [OF assms(1), of "self_anomalyLikelihood self" "snd row" s "fst row"]
  obtain l1 p where
    ap: "anomalyProbability libs (self_anomalyLikelihood self) (snd row) s (fst row) = Inr (l1, p)"
    and up: "unit_probability p" by blast
  from enc mr sc ap up show ?thesis
    by (simp add: computeAnomalyProbability_def)
qed

lemma emitOutputMessage_ok:
  assumes "stdout_credit w = None"
  shows "\<exists>w2. emitOutputMessage libs i p w = (Inr (), w2) \<and>
           trace w2 = trace w @ [Stdout_write (output_line libs i p), Stdout_flush] \<and>
           stdin w2 = stdin w \<and> stdout_credit w2 = None"
proof -
  obtain r w2 where em: "emitOutputMessage libs i p w = (r, w2)"
    by (cases "emitOutputMessage libs i p w")
  from emitOutputMessage_cases [OF em] assms em show ?thesis by auto
qed

lemma run_loop_valid:
  assumes "healthy libs"
  shows "stdin w = ls \<Longrightarrow> \<forall>l\<in>set ls. valid_record libs l \<Longrightarrow> stdout_credit w = None \<Longrightarrow>
    \<exists>self' w' ps. run_loop libs self i w = (Inr self', w') \<and> length ps = length ls \<and>
       (\<forall>p\<in>set ps. unit_probability p) \<and>
       stdout_writes (trace w') =
         stdout_writes (trace w) @ map2 (output_line libs) [i..<i + length ls] ps"
proof (induction ls arbitrary: self i w)
  case Nil
  then show ?case by (simp add: run_loop_Nil stdout_writes_append)
next
  case (Cons l ls)
  from Cons.prems(2) have vl: "valid_record libs l" by simp
  from valid_record_decode [OF vl] obtain t v where
    ne: "l \<noteq> []" and dec: "decode_message libs l = Inr (t, v)" and num: "is_number v" by blast
  from healthy_compute [OF assms, of "(t, v)" self] num obtain p self1 where
    cp: "computeAnomalyProbability libs self (t, v) = Inr (p, self1)" and up: "unit_probability p"
    by auto
  have "stdout_credit (after_read l w) = None" using Cons.prems(3) by simp
  from emitOutputMessage_ok [OF this, of libs i p] obtain w2 where
    em: "emitOutputMessage libs i p (after_read l w) = (Inr (), w2)"
    and tr: "trace w2 = trace (after_read l w) @ [Stdout_write (output_line libs i p), Stdout_flush]"
    and st: "stdin w2 = stdin (after_read l w)" and cr: "stdout_credit w2 = None" by blast
  from run_loop_Cons [OF Cons.prems(1) ne, of libs self i] dec cp em
  have step: "run_loop libs self i w = run_loop libs self1 (Suc i) w2" by simp
  from st Cons.prems(1) have st2: "stdin w2 = ls" by simp
  from Cons.prems(2) have "\<forall>l\<in>set ls. valid_record libs l" by simp
  from Cons.IH [OF st2 this cr, of self1 "Suc i"] obtain self' w' ps where
    rl: "run_loop libs self1 (Suc i) w2 = (Inr self', w')" and len: "length ps = length ls"
    and ups: "\<forall>p\<in>set ps. unit_probability p"
    and out: "stdout_writes (trace w') =
         stdout_writes (trace w2) @ map2 (output_line libs) [Suc i..<Suc i + length ls] ps"
    by blast
  have upt: "[i..<i + length (l # ls)] = i # [Suc i..<Suc i + length ls]"
    by (simp add: upt_rec)
  from tr have "stdout_writes (trace w2) = stdout_writes (trace w) @ [output_line libs i p]"
    by (simp add: stdout_writes_append)
  with out upt have "stdout_writes (trace w') =
         stdout_writes (trace w) @ map2 (output_line libs) [i..<i + length (l # ls)] (p # ps)"
    by simp
  with step rl len ups up show ?case
    by (intro exI [of _ self'] exI [of _ w'] exI [of _ "p # ps"]) simp
qed

lemma demo_libs_healthy: "healthy demo_libs"
  by (simp add: healthy_def demo_libs_def demo_encode_def)

lemma demo_scenario_valid:
  "valid_record demo_libs (''[0, 10]'' @ newline)"
  "valid_record demo_libs (''[60, 12]'' @ newline)"
  "valid_record demo_libs (''[120, 11]'' @ newline)"
  by code_simp+

lemma demo_scenario_run:
  "run demo_libs demo_self demo_scenario =
   (Inr (demo_self\<lparr>self_modelRecordEncoder := 3,
           self_model := (PDict [(''minVal'', PInt 0), (''maxVal'', PInt 100)], 3),
           self_anomalyLikelihood := 3\<rparr>),
    \<lparr>stdin = [], stdout_credit = None, stderr_credit = None,
     trace = [Stdin_readline (''[0, 10]'' @ newline), Stdout_write (''[0, 0.5]'' @ newline),
              Stdout_flush,
              Stdin_readline (''[60, 12]'' @ newline), Stdout_write (''[1, 0.5]'' @ newline),
              Stdout_flush,
              Stdin_readline (''[120, 11]'' @ newline), Stdout_write (''[2, 0.5]'' @ newline),
              Stdout_flush,
              Stdin_readline []],
     logged = [Log_info ''Processing model=m1'']\<rparr>)"
  by code_simp

section \<open>Lines that the reader rejects\<close>

lemma run_loop_rejected:
  "stdin w = ls \<Longrightarrow> run_loop libs self i w = (r, w') \<Longrightarrow>
   \<exists>evs. trace w' = trace w @ evs \<and>
     (\<forall>l ex. Stdin_readline l \<in> set evs \<longrightarrow> l \<noteq> [] \<longrightarrow> decode_message libs l = Inl ex \<longrightarrow>
        r = Inl ex \<and> (\<exists>pre. evs = pre @ [Stdin_readline l]))"
proof (induction ls arbitrary: self i w)
  case Nil
  then show ?case by (auto simp: run_loop_Nil)
next
  case (Cons l ls)
  show ?case
  proof (cases "l = []")
    case True
    with Cons.prems show ?thesis by (auto simp: run_loop_empty_line)
  next
    case False
    note step = run_loop_Cons [OF Cons.prems(1) False, of libs self i]
    show ?thesis
    proof (cases "decode_message libs l")
      case (Inl ex)
      with step Cons.prems(2) have "r = Inl ex" "trace w' = trace w @ [Stdin_readline l]"
        by auto
      with Inl show ?thesis by auto
    next
      case (Inr row)
      note row = this
      show ?thesis
      proof (cases "computeAnomalyProbability libs self row")
        case (Inl ex)
        with step row Cons.prems(2) have "trace w' = trace w @ [Stdin_readline l]" by auto
        with row show ?thesis by auto
      next
        case (Inr ps)
        obtain p self1 where ps: "ps = (p, self1)" by (cases ps)
        obtain r2 w2 where em: "emitOutputMessage libs i p (after_read l w) = (r2, w2)"
          by (cases "emitOutputMessage libs i p (after_read l w)")
        note ec = emitOutputMessage_cases [OF em]
        show ?thesis
        proof (cases r2)
          case (Inl ex)
          with step row Inr ps em Cons.prems(2) have "w' = w2" by auto
          with ec Inl have "trace w' = trace w @ [Stdin_readline l] \<or>
            trace w' = trace w @ [Stdin_readline l, Stdout_write (output_line libs i p)]"
            by auto
          with row show ?thesis by auto
        next
          case (Inr u)
          with step row \<open>computeAnomalyProbability libs self row = Inr ps\<close> ps em Cons.prems(2)
          have rec: "run_loop libs self1 (Suc i) w2 = (r, w')" by auto
          from ec Cons.prems(1) have "stdin w2 = ls" by simp
          from Cons.IH [OF this rec] obtain evs where
            evs: "trace w' = trace w2 @ evs"
            and rej: "\<forall>l ex. Stdin_readline l \<in> set evs \<longrightarrow> l \<noteq> [] \<longrightarrow>
               decode_message libs l = Inl ex \<longrightarrow>
               r = Inl ex \<and> (\<exists>pre. evs = pre @ [Stdin_readline l])" by blast
          from ec Inr have t2: "trace w2 =
            trace w @ [Stdin_readline l, Stdout_write (output_line libs i p), Stdout_flush]"
            by auto
          let ?evs = "[Stdin_readline l, Stdout_write (output_line libs i p), Stdout_flush] @ evs"
          have "trace w' = trace w @ ?evs" using evs t2 by simp
          moreover have "\<forall>l' ex. Stdin_readline l' \<in> set ?evs \<longrightarrow> l' \<noteq> [] \<longrightarrow>
               decode_message libs l' = Inl ex \<longrightarrow>
               r = Inl ex \<and> (\<exists>pre. ?evs = pre @ [Stdin_readline l'])"
          proof (intro allI impI)
            fix l' ex
            assume a: "Stdin_readline l' \<in> set ?evs" "l' \<noteq> []" "decode_message libs l' = Inl ex"
            with row have "l' \<noteq> l" by auto
            with a(1) have "Stdin_readline l' \<in> set evs" by auto
            with rej a obtain pre where "r = Inl ex" "evs = pre @ [Stdin_readline l']" by blast
            then show "r = Inl ex \<and> (\<exists>pre. ?evs = pre @ [Stdin_readline l'])" by auto
          qed
          ultimately show ?thesis by blast
        qed
      qed
    qed
  qed
qed

lemma main_try_rejected:
  assumes "main_try libs argv w = (r, w1)"
    and "trace w = []"
    and "Stdin_readline l \<in> set (trace w1)"
    and "l \<noteq> []"
    and "decode_message libs l = Inl ex"
  shows "r = Inl ex \<and> (\<exists>pre. trace w1 = pre @ [Stdin_readline l])"
proof (cases "parseArgs libs argv")
  case (Inl e)
  with assms(1-3) show ?thesis by (auto simp: main_try_def)
next
  case (Inr options)
  note opts = this
  show ?thesis
  proof (cases "ModelRunner_init libs (opt_modelId options) (opt_stats options)")
    case (Inl e)
    with assms(1-3) opts show ?thesis by (auto simp: main_try_def)
  next
    case (Inr self)
    let ?w0 = "log_info (''Processing model='' @ self_modelId self) w"
    obtain r2 w2 where rn: "run_loop libs self 0 ?w0 = (r2, w2)"
      by (cases "run_loop libs self 0 ?w0")
    with assms(1) opts Inr have w: "w1 = w2" and r: "isl r = isl r2" "\<And>e. r2 = Inl e \<Longrightarrow> r = Inl e"
      by (auto simp: main_try_def run_def split: sum.splits)
    have "trace ?w0 = []" using assms(2) by (simp add: log_info_def)
    with run_loop_rejected [OF refl rn] obtain evs where
      "trace w2 = evs"
      "\<forall>l ex. Stdin_readline l \<in> set evs \<longrightarrow> l \<noteq> [] \<longrightarrow> decode_message libs l = Inl ex \<longrightarrow>
        r2 = Inl ex \<and> (\<exists>pre. evs = pre @ [Stdin_readline l])" by auto
    with assms(3-5) w have "r2 = Inl ex" "\<exists>pre. trace w1 = pre @ [Stdin_readline l]" by auto
    with r show ?thesis by simp
  qed
qed

lemma main_except_trace:
  "\<exists>evs. trace (snd (main_except libs ex w)) = trace w @ evs \<and> (\<forall>ev\<in>set evs. is_stderr ev)"
  by (cases "stderr_credit w"; cases "the (stderr_credit w)"; cases "the (stderr_credit w) - 1")
     (auto simp: main_except_def stderr_write_def stderr_flush_def stderr_emit_def
      log_exception_def Let_def)

lemma demo_main_boolean_timestamp:
  "main demo_libs demo_argv (fresh_world [''[true, 5]'' @ newline] None None) =
     (Returned,
      \<lparr>stdin = [], stdout_credit = None, stderr_credit = None,
       trace = [Stdin_readline (''[true, 5]'' @ newline), Stdout_write (''[0, 0.5]'' @ newline),
                Stdout_flush, Stdin_readline []],
       logged = [Log_info ''Processing model=m1'']\<rparr>)"
  by code_simp

lemma demo_main_wrong_arity:
  "main demo_libs demo_argv
     (fresh_world [''[0, 10]'' @ newline, ''[1]'' @ newline, ''[60, 12]'' @ newline] None None) =
     (Os_exit 1,
      \<lparr>stdin = [''[60, 12]'' @ newline], stdout_credit = None, stderr_credit = None,
       trace = [Stdin_readline (''[0, 10]'' @ newline), Stdout_write (''[0, 0.5]'' @ newline),
                Stdout_flush, Stdin_readline (''[1]'' @ newline),
                Stderr_write
                  (errorMessage demo_libs (ValueError ''need more than 1 value to unpack'')),
                Stderr_flush],
       logged = [Log_info ''Processing model=m1'', Log_exception ''ModelRunner failed'']\<rparr>)"
  by code_simp

section \<open>Building the model\<close>

lemma createModel_search:
  assumes "py_getitem stats ''min'' = Inr minVal"
    and "py_getitem stats ''max'' = Inr maxVal"
    and "py_get stats ''minResolution'' = Inr minResolution"
    and "getScalarMetricWithTimeOfDayParams libs [PInt 0] minVal maxVal minResolution =
           Inr possibleModels"
  shows "createModel libs stats =
     (case py_first possibleModels of
        Inl ex \<Rightarrow> Inl ex
      | Inr swarmParams \<Rightarrow> model_from_params libs swarmParams)"
  using assms by (simp add: createModel_def model_from_params_def split: sum.splits)

lemma IndexError_is_Exception: "isinstance (IndexError msg) ''Exception''"
  by (simp add: isinstance_def IndexError_def standard_error_def)

lemma main_exit_of_failure:
  assumes "main_try libs argv w = (Inl ex, w1)" and "isinstance ex ''Exception''"
  shows "fst (main libs argv w) = Os_exit 1"
  using assms by (simp add: main_def main_except_def Let_def)

lemma demo_parseArgs:
  "parseArgs (demo_libs\<lparr>getScalarMetricWithTimeOfDayParams := f\<rparr>) demo_argv =
     Inr \<lparr>opt_modelId = ''m1'', opt_stats = demo_stats\<rparr>"
  by code_simp

section \<open>Set-up\<close>

lemma stderr_not_readline: "is_stderr ev \<Longrightarrow> \<not> is_readline ev"
  by (cases ev) auto

lemma demo_init:
  "ModelRunner_init demo_libs ''m1'' demo_stats = Inr demo_self"
  by code_simp

lemma demo_init_fails:
  "ModelRunner_init (demo_libs\<lparr>AnomalyLikelihood := Inl demo_bare_error\<rparr>) ''m1'' demo_stats =
     Inl demo_bare_error"
  by code_simp

lemma demo_parseArgs_likelihood:
  "parseArgs (demo_libs\<lparr>AnomalyLikelihood := a\<rparr>) demo_argv =
     Inr \<lparr>opt_modelId = ''m1'', opt_stats = demo_stats\<rparr>"
  by code_simp

section \<open>What one round hands to the libraries\<close>



section \<open>The estimator during warm-up\<close>

lemma estimator_update_history:
  "history (snd (estimator_update params st v s t)) =
     drop (Suc (length (history st)) - history_cap params) (history st @ [(v, s, t)])"
proof (cases "length (history st) < min_history params")
  case True
  then show ?thesis by (simp add: estimator_update_def Let_def)
next
  case False
  then show ?thesis
    unfolding estimator_update_def Let_def
    by (simp split: option.split prod.split del: drop_append)
qed

lemma estimator_update_warm_up:
  "length (history st) < min_history params \<Longrightarrow>
   fst (estimator_update params st v s t) = 1 / 2"
  by (simp add: estimator_update_def Let_def)

lemma estimator_feed_warm_up:
  "k < length obs \<Longrightarrow> length (history st) + k < min_history params \<Longrightarrow>
   estimator_feed params st obs ! k = 1 / 2"
proof (induction obs arbitrary: st k)
  case Nil
  then show ?case by simp
next
  case (Cons ob obs)
  obtain v s t where ob: "ob = (v, s, t)" by (cases ob)
  obtain p st1 where up: "estimator_update params st v s t = (p, st1)"
    by (cases "estimator_update params st v s t")
  show ?case
  proof (cases k)
    case 0
    with Cons.prems(2) estimator_update_warm_up [of st params v s t] ob up show ?thesis by simp
  next
    case (Suc j)
    from estimator_update_history [of params st v s t] up
    have "history st1 =
      drop (Suc (length (history st)) - history_cap params) (history st @ [(v, s, t)])" by simp
    then have "length (history st1) \<le> Suc (length (history st))" by simp
    with Cons.prems Suc have "j < length obs" "length (history st1) + j < min_history params"
      by simp_all
    from Cons.IH [OF this] ob up Suc show ?thesis by simp
  qed
qed

section \<open>The claims\<close>

text \<open>
  Claim C1. For every sequence of \<open>N\<close> valid input records processed in order, the engine
  emits exactly \<open>N\<close> output lines; the \<open>i\<close>-th line carries the row index \<open>i\<close>, counted
  from 0 in input order, and an anomaly probability between 0 and 1. The collaborators are
  taken to keep their contract (\<open>healthy\<close>) and the output channel to accept the writes.
\<close>

theorem one_output_line_per_valid_record:
  assumes "healthy libs"
    and "\<forall>l\<in>set (stdin w). valid_record libs l"
    and "stdout_credit w = None"
  shows "\<exists>self' w' ps. run libs self w = (Inr self', w') \<and>
       length ps = length (stdin w) \<and>
       (\<forall>p\<in>set ps. unit_probability p) \<and>
       stdout_writes (trace w') =
         stdout_writes (trace w) @ map2 (output_line libs) [0..<length (stdin w)] ps"
proof -
  let ?w0 = "log_info (''Processing model='' @ self_modelId self) w"
  have "stdin ?w0 = stdin w" "stdout_credit ?w0 = None" "trace ?w0 = trace w"
    using assms(3) by (simp_all add: log_info_def)
  with run_loop_valid [OF assms(1), of ?w0 "stdin w" self 0] assms(2)
  show ?thesis by (simp add: run_def)
qed


theorem one_output_line_per_valid_record_witness:
  "healthy demo_libs
   \<and> stdin demo_scenario =
       [''[0, 10]'' @ newline, ''[60, 12]'' @ newline, ''[120, 11]'' @ newline]
   \<and> valid_record demo_libs (''[0, 10]'' @ newline)
   \<and> valid_record demo_libs (''[60, 12]'' @ newline)
   \<and> valid_record demo_libs (''[120, 11]'' @ newline)
   \<and> stdout_credit demo_scenario = None
   \<and> (\<exists>self' w' ps.
         run demo_libs demo_self demo_scenario = (Inr self', w') \<and>
         length ps = length (stdin demo_scenario) \<and>
         (\<forall>p\<in>set ps. unit_probability p) \<and>
         stdout_writes (trace w') =
           stdout_writes (trace demo_scenario)
           @ map2 (output_line demo_libs) [0..<length (stdin demo_scenario)] ps)
   \<and> stdout_writes (trace (snd (run demo_libs demo_self demo_scenario))) =
       [''[0, 0.5]'' @ newline, ''[1, 0.5]'' @ newline, ''[2, 0.5]'' @ newline]"
proof -
  have s: "stdin demo_scenario =
       [''[0, 10]'' @ newline, ''[60, 12]'' @ newline, ''[120, 11]'' @ newline]"
    by (simp add: demo_scenario_def fresh_world_def)
  have v: "\<forall>l\<in>set (stdin demo_scenario). valid_record demo_libs l"
    using demo_scenario_valid by (simp add: s)
  have c: "stdout_credit demo_scenario = None"
    by (simp add: demo_scenario_def fresh_world_def)
  note e = one_output_line_per_valid_record [OF demo_libs_healthy v c, of demo_self]
  have o: "stdout_writes (trace (snd (run demo_libs demo_self demo_scenario))) =
       [''[0, 0.5]'' @ newline, ''[1, 0.5]'' @ newline, ''[2, 0.5]'' @ newline]"
    by (simp add: demo_scenario_run)
  show ?thesis
    by (intro conjI) (rule demo_libs_healthy, rule s, rule demo_scenario_valid,
        rule demo_scenario_valid, rule demo_scenario_valid, rule c, rule e, rule o)
qed



text \<open>
  Claim C3, as the specification states it: every input line that is not a valid
  two-element numeric JSON array makes processing fail at once, with exactly one error
  report and no further output line. The reader has no check of its own: a line fails
  where \<^verbatim>\<open>json.loads\<close>, the unpacking into two names or \<^verbatim>\<open>utcfromtimestamp\<close> raises, and
  nothing looks at the second item before the model does. The line \<^verbatim>\<open>[true, 5]\<close> is not an
  array of two numbers, and it is processed like \<^verbatim>\<open>[1, 5]\<close>: Python's \<^verbatim>\<open>True\<close> is the
  integer 1 for the timestamp conversion. The run below emits an output line for it and
  ends normally.
\<close>

theorem boolean_timestamp_is_processed:
  "json_loads demo_libs (''[true, 5]'' @ newline) = Inr (PList [PBool True, PInt 5])
   \<and> \<not> valid_message (PList [PBool True, PInt 5])
   \<and> main demo_libs demo_argv (fresh_world [''[true, 5]'' @ newline] None None) =
       (Returned,
        \<lparr>stdin = [], stdout_credit = None, stderr_credit = None,
         trace = [Stdin_readline (''[true, 5]'' @ newline), Stdout_write (''[0, 0.5]'' @ newline),
                  Stdout_flush, Stdin_readline []],
         logged = [Log_info ''Processing model=m1'']\<rparr>)"
proof -
  have a: "json_loads demo_libs (''[true, 5]'' @ newline) = Inr (PList [PBool True, PInt 5])"
    by code_simp
  have b: "\<not> valid_message (PList [PBool True, PInt 5])" by simp
  show ?thesis by (intro conjI) (rule a, rule b, rule demo_main_boolean_timestamp)
qed

text \<open>
  Claim C3, amended. For every non-empty input line that the reader rejects (JSON decoding
  fails, or the decoded value does not unpack into exactly two items, or the timestamp
  conversion raises on the first item), processing fails at that line: in the trace of the
  process the read of the line is followed by the write of the one error report and its
  flush and by nothing else, no error report came before, and the process ends with
  \<^verbatim>\<open>os._exit(1)\<close>. (The exception is one that \<^verbatim>\<open>except Exception\<close> catches and the
  error channel accepts the report.)
\<close>

theorem rejected_line_is_fatal:
  assumes "main libs argv w = (fin, w')"
    and "trace w = []"
    and "Stdin_readline l \<in> set (trace w')"
    and "l \<noteq> []"
    and "decode_message libs l = Inl ex"
    and "isinstance ex ''Exception''"
    and "accepts (stderr_credit w) 2"
  shows "fin = Os_exit 1 \<and>
         (\<exists>pre. trace w' =
                  pre @ [Stdin_readline l, Stderr_write (errorMessage libs ex), Stderr_flush] \<and>
                filter is_stderr pre = [])"
proof -
  obtain r w1 where mt: "main_try libs argv w = (r, w1)" by (cases "main_try libs argv w")
  from main_try_frame [OF mt] assms(2)
  have cr: "stderr_credit w1 = stderr_credit w" and quiet: "filter is_stderr (trace w1) = []"
    by auto
  have "\<exists>evs. trace w' = trace w1 @ evs \<and> (\<forall>ev\<in>set evs. is_stderr ev)"
  proof (cases r)
    case (Inl e)
    with assms(1) mt main_except_trace [of libs e w1] show ?thesis
      by (auto simp: main_def split: if_splits)
  next
    case (Inr u)
    with assms(1) mt show ?thesis by (auto simp: main_def)
  qed
  then obtain evs where
    "trace w' = trace w1 @ evs" and "\<forall>ev\<in>set evs. is_stderr ev" by blast
  moreover from this(2) have "Stdin_readline l \<notin> set evs" by force
  ultimately have "Stdin_readline l \<in> set (trace w1)" using assms(3) by simp
  from main_try_rejected [OF mt assms(2) this assms(4,5)] obtain pre where
    r: "r = Inl ex" and pre: "trace w1 = pre @ [Stdin_readline l]" by blast
  from accepts_2 [OF assms(7)] cr
  have "stderr_credit w1 = None \<or> (\<exists>n. stderr_credit w1 = Some (Suc (Suc n)))" by simp
  from main_except_ok [OF this, of libs ex] obtain w2 where
    "main_except libs ex w1 = (Os_exit 1, w2)"
    "trace w2 = trace w1 @ [Stderr_write (errorMessage libs ex), Stderr_flush]" by blast
  with main_failure [of libs argv w ex w1] mt r assms(1,6) pre quiet
  show ?thesis by auto
qed

theorem rejected_line_is_fatal_witness:
  "main demo_libs demo_argv
     (fresh_world [''[0, 10]'' @ newline, ''[1]'' @ newline, ''[60, 12]'' @ newline] None None) =
     (Os_exit 1,
      \<lparr>stdin = [''[60, 12]'' @ newline], stdout_credit = None, stderr_credit = None,
       trace = [Stdin_readline (''[0, 10]'' @ newline), Stdout_write (''[0, 0.5]'' @ newline),
                Stdout_flush, Stdin_readline (''[1]'' @ newline),
                Stderr_write
                  (errorMessage demo_libs (ValueError ''need more than 1 value to unpack'')),
                Stderr_flush],
       logged = [Log_info ''Processing model=m1'', Log_exception ''ModelRunner failed'']\<rparr>)
   \<and> ''[1]'' @ newline \<noteq> []
   \<and> decode_message demo_libs (''[1]'' @ newline) =
       Inl (ValueError ''need more than 1 value to unpack'')
   \<and> isinstance (ValueError ''need more than 1 value to unpack'') ''Exception''
   \<and> accepts None 2
   \<and> (\<exists>pre. [Stdin_readline (''[0, 10]'' @ newline), Stdout_write (''[0, 0.5]'' @ newline),
              Stdout_flush, Stdin_readline (''[1]'' @ newline),
              Stderr_write
                (errorMessage demo_libs (ValueError ''need more than 1 value to unpack'')),
              Stderr_flush] =
             pre @ [Stdin_readline (''[1]'' @ newline),
                    Stderr_write
                      (errorMessage demo_libs (ValueError ''need more than 1 value to unpack'')),
                    Stderr_flush] \<and>
             filter is_stderr pre = [])"
proof -
  let ?w = "fresh_world [''[0, 10]'' @ newline, ''[1]'' @ newline, ''[60, 12]'' @ newline]
              None None"
  note h1 = demo_main_wrong_arity
  have h2: "trace ?w = []" by (simp add: fresh_world_def)
  have h4: "''[1]'' @ newline \<noteq> []" by simp
  have h5: "decode_message demo_libs (''[1]'' @ newline) =
       Inl (ValueError ''need more than 1 value to unpack'')" by code_simp
  note h6 = demo_ValueError_is_Exception [of "''need more than 1 value to unpack''"]
  have h7: "accepts (stderr_credit ?w) 2" by (simp add: fresh_world_def)
  have h7': "accepts None 2" by simp
  from rejected_line_is_fatal [OF h1 h2 _ h4 h5 h6 h7]
  have e: "\<exists>pre. [Stdin_readline (''[0, 10]'' @ newline), Stdout_write (''[0, 0.5]'' @ newline),
              Stdout_flush, Stdin_readline (''[1]'' @ newline),
              Stderr_write
                (errorMessage demo_libs (ValueError ''need more than 1 value to unpack'')),
              Stderr_flush] =
             pre @ [Stdin_readline (''[1]'' @ newline),
                    Stderr_write
                      (errorMessage demo_libs (ValueError ''need more than 1 value to unpack'')),
                    Stderr_flush] \<and>
             filter is_stderr pre = []"
    by simp
  show ?thesis
    by (intro conjI) (rule h1, rule h4, rule h5, rule h6, rule h7', rule e)
qed

text \<open>
  Claim C4. The synthesis of the model configuration is a function of the summary stats:
  for stats with a \<open>min\<close> and a \<open>max\<close> (and so for those with \<open>min \<le> max\<close>), when the
  configuration search returns a non-empty ranked list, the model is built from its first
  candidate and from nothing else of the list; when the search returns no candidate,
  \<^verbatim>\<open>possibleModels[0]\<close> raises, the error leaves \<^verbatim>\<open>_createModel\<close>, the constructor and the
  \<^verbatim>\<open>try\<close> block as it is, with no second call of the search, and the process ends with
  status 1.
\<close>

theorem createModel_takes_first_candidate:
  assumes "py_getitem stats ''min'' = Inr minVal"
    and "py_getitem stats ''max'' = Inr maxVal"
    and "py_get stats ''minResolution'' = Inr minResolution"
    and "getScalarMetricWithTimeOfDayParams libs [PInt 0] minVal maxVal minResolution =
           Inr possibleModels"
    and "parseArgs libs argv = Inr options"
    and "opt_stats options = stats"
    and "ModelRecordEncoder libs INPUT_RECORD_SCHEMA = Inr encoder"
  shows "(case possibleModels of
            swarmParams # others \<Rightarrow> createModel libs stats = model_from_params libs swarmParams
          | [] \<Rightarrow>
              createModel libs stats = Inl (IndexError ''list index out of range'') \<and>
              main_try libs argv w = (Inl (IndexError ''list index out of range''), w) \<and>
              fst (main libs argv w) = Os_exit 1)"
proof (cases possibleModels)
  case Nil
  with createModel_search [OF assms(1-4)]
  have cm: "createModel libs stats = Inl (IndexError ''list index out of range'')" by simp
  with assms(5-7)
  have mt: "main_try libs argv w = (Inl (IndexError ''list index out of range''), w)"
    by (simp add: main_try_def ModelRunner_init_def)
  from main_exit_of_failure [OF mt IndexError_is_Exception] cm mt Nil show ?thesis by simp
next
  case (Cons swarmParams others)
  with createModel_search [OF assms(1-4)] show ?thesis by simp
qed

theorem createModel_takes_first_candidate_witness:
  "py_getitem demo_stats ''min'' = Inr (PInt 0)
   \<and> py_getitem demo_stats ''max'' = Inr (PInt 100)
   \<and> py_get demo_stats ''minResolution'' = Inr PNone
   \<and> getScalarMetricWithTimeOfDayParams demo_libs [PInt 0] (PInt 0) (PInt 100) PNone =
       Inr [PDict [(''modelConfig'', PDict [(''minVal'', PInt 0), (''maxVal'', PInt 100)]),
                   (''inferenceArgs'', PDict [])],
            PDict [(''modelConfig'', PDict [(''minVal'', PInt 0), (''maxVal'', PInt 0)]),
                   (''inferenceArgs'', PDict [])]]
   \<and> createModel demo_libs demo_stats =
       model_from_params demo_libs
         (PDict [(''modelConfig'', PDict [(''minVal'', PInt 0), (''maxVal'', PInt 100)]),
                 (''inferenceArgs'', PDict [])])
   \<and> createModel demo_libs demo_stats =
       Inr (PDict [(''minVal'', PInt 0), (''maxVal'', PInt 100)], 0)
   \<and> getScalarMetricWithTimeOfDayParams
         (demo_libs\<lparr>getScalarMetricWithTimeOfDayParams := (\<lambda>d a b c. Inr [])\<rparr>)
         [PInt 0] (PInt 0) (PInt 100) PNone = Inr []
   \<and> createModel (demo_libs\<lparr>getScalarMetricWithTimeOfDayParams := (\<lambda>d a b c. Inr [])\<rparr>)
         demo_stats = Inl (IndexError ''list index out of range'')
   \<and> fst (main (demo_libs\<lparr>getScalarMetricWithTimeOfDayParams := (\<lambda>d a b c. Inr [])\<rparr>)
         demo_argv (fresh_world [''[0, 10]'' @ newline] None None)) = Os_exit 1"
proof -
  let ?none = "demo_libs\<lparr>getScalarMetricWithTimeOfDayParams := (\<lambda>d a b c. Inr [])\<rparr>"
  let ?w = "fresh_world [''[0, 10]'' @ newline] None None"
  let ?c1 = "PDict [(''modelConfig'', PDict [(''minVal'', PInt 0), (''maxVal'', PInt 100)]),
                   (''inferenceArgs'', PDict [])]"
  let ?c2 = "PDict [(''modelConfig'', PDict [(''minVal'', PInt 0), (''maxVal'', PInt 0)]),
                   (''inferenceArgs'', PDict [])]"
  have h1: "py_getitem demo_stats ''min'' = Inr (PInt 0)" by code_simp
  have h2: "py_getitem demo_stats ''max'' = Inr (PInt 100)" by code_simp
  have h3: "py_get demo_stats ''minResolution'' = Inr PNone" by code_simp
  have h4: "getScalarMetricWithTimeOfDayParams demo_libs [PInt 0] (PInt 0) (PInt 100) PNone =
       Inr [?c1, ?c2]" by (simp add: demo_libs_def demo_search_def)
  have h4n: "getScalarMetricWithTimeOfDayParams ?none [PInt 0] (PInt 0) (PInt 100) PNone = Inr []"
    by simp
  have h5: "parseArgs demo_libs demo_argv = Inr \<lparr>opt_modelId = ''m1'', opt_stats = demo_stats\<rparr>"
    using demo_parseArgs [of "getScalarMetricWithTimeOfDayParams demo_libs"] by simp
  note h5n = demo_parseArgs [of "\<lambda>d a b c. Inr []"]
  have h6: "opt_stats \<lparr>opt_modelId = ''m1'', opt_stats = demo_stats\<rparr> = demo_stats" by simp
  have h7: "ModelRecordEncoder demo_libs INPUT_RECORD_SCHEMA = Inr 0"
    by (simp add: demo_libs_def)
  have h7n: "ModelRecordEncoder ?none INPUT_RECORD_SCHEMA = Inr 0"
    by (simp add: demo_libs_def)
  from createModel_takes_first_candidate [OF h1 h2 h3 h4 h5 h6 h7, of ?w]
  have a: "createModel demo_libs demo_stats = model_from_params demo_libs ?c1" by simp
  have b: "createModel demo_libs demo_stats =
       Inr (PDict [(''minVal'', PInt 0), (''maxVal'', PInt 100)], 0)" by code_simp
  from createModel_takes_first_candidate [OF h1 h2 h3 h4n h5n h6 h7n, of ?w]
  have c: "createModel ?none demo_stats = Inl (IndexError ''list index out of range'')"
    and d: "fst (main ?none demo_argv ?w) = Os_exit 1" by simp_all
  show ?thesis
    by (intro conjI) (rule h1, rule h2, rule h3, rule h4, rule a, rule b, rule h4n, rule c, rule d)
qed

text \<open>
  Claim C5. In the running state every successfully processed input line produces exactly
  one output line, written and flushed before the next line is read; the engine never
  reads ahead of a result it has not emitted. Whatever the libraries do and however the
  run ends, the channel events of \<^verbatim>\<open>run\<close> are rounds of one read, one write and one flush
  in this order, up to the round that ends the loop: see \<open>lockstep\<close>.
\<close>

theorem run_writes_and_flushes_before_next_read:
  assumes "run libs self w = (r, w')"
  shows "\<exists>evs. trace w' = trace w @ evs \<and> lockstep (\<not> isl r) evs"
  using run_frame(3) [OF assms] .

theorem run_writes_and_flushes_before_next_read_witness:
  "run demo_libs demo_self
     (fresh_world [''[0, 10]'' @ newline, ''[60, 12]'' @ newline] None None) =
     (Inr (demo_self\<lparr>self_modelRecordEncoder := 2,
             self_model := (PDict [(''minVal'', PInt 0), (''maxVal'', PInt 100)], 2),
             self_anomalyLikelihood := 2\<rparr>),
      \<lparr>stdin = [], stdout_credit = None, stderr_credit = None,
       trace = [Stdin_readline (''[0, 10]'' @ newline), Stdout_write (''[0, 0.5]'' @ newline),
                Stdout_flush,
                Stdin_readline (''[60, 12]'' @ newline), Stdout_write (''[1, 0.5]'' @ newline),
                Stdout_flush,
                Stdin_readline []],
       logged = [Log_info ''Processing model=m1'']\<rparr>)
   \<and> (\<exists>evs. [Stdin_readline (''[0, 10]'' @ newline), Stdout_write (''[0, 0.5]'' @ newline),
                Stdout_flush,
                Stdin_readline (''[60, 12]'' @ newline), Stdout_write (''[1, 0.5]'' @ newline),
                Stdout_flush,
                Stdin_readline []] = [] @ evs \<and> lockstep True evs)"
proof -
  let ?w = "fresh_world [''[0, 10]'' @ newline, ''[60, 12]'' @ newline] None None"
  let ?r = "Inr (demo_self\<lparr>self_modelRecordEncoder := 2,
             self_model := (PDict [(''minVal'', PInt 0), (''maxVal'', PInt 100)], 2),
             self_anomalyLikelihood := 2\<rparr>)"
  let ?w' = "\<lparr>stdin = [], stdout_credit = None, stderr_credit = None,
       trace = [Stdin_readline (''[0, 10]'' @ newline), Stdout_write (''[0, 0.5]'' @ newline),
                Stdout_flush,
                Stdin_readline (''[60, 12]'' @ newline), Stdout_write (''[1, 0.5]'' @ newline),
                Stdout_flush,
                Stdin_readline []],
       logged = [Log_info ''Processing model=m1'']\<rparr>"
  have h: "run demo_libs demo_self ?w = (?r, ?w')" by code_simp
  from run_writes_and_flushes_before_next_read [OF h] h show ?thesis
    by (simp add: fresh_world_def)
qed

text \<open>
  Claim C6. An empty input stream (end of stream at the first read) yields no output line
  and a clean end with exit code 0, and the set-up (encoder, model and estimator) has run
  to completion before the loop saw the end of the stream: the one read of the trace comes
  from a runner whose constructor returned, and when the constructor raises, the process
  does not end cleanly and no read is ever made, empty stream or not.
\<close>

theorem empty_stream_closes_cleanly:
  assumes "stdin w = []"
    and "trace w = []"
    and "parseArgs libs argv = Inr options"
  shows "(case ModelRunner_init libs (opt_modelId options) (opt_stats options) of
            Inr self \<Rightarrow>
              (\<exists>w'. main libs argv w = (Returned, w') \<and>
                     exit_status (fst (main libs argv w)) = Some 0 \<and>
                     trace w' = [Stdin_readline []] \<and> stdout_writes (trace w') = [])
          | Inl ex \<Rightarrow>
              fst (main libs argv w) \<noteq> Returned \<and>
              filter is_readline (trace (snd (main libs argv w))) = [])"
proof (cases "ModelRunner_init libs (opt_modelId options) (opt_stats options)")
  case (Inr self)
  let ?w0 = "log_info (''Processing model='' @ self_modelId self) w"
  have "stdin ?w0 = []" using assms(1) by (simp add: log_info_def)
  from run_loop_Nil [OF this, of libs self 0]
  have "run libs self w = (Inr self, after_read [] ?w0)" by (simp add: run_def)
  with assms(2,3) Inr show ?thesis
    by (simp add: main_def main_try_def log_info_def)
next
  case (Inl ex)
  with assms(3) have mt: "main_try libs argv w = (Inl ex, w)" by (simp add: main_try_def)
  from main_except_trace [of libs ex w] obtain evs where
    "trace (snd (main_except libs ex w)) = trace w @ evs" "\<forall>ev\<in>set evs. is_stderr ev" by blast
  with assms(2) have "filter is_readline (trace (snd (main_except libs ex w))) = []"
    by (auto simp: filter_empty_conv dest: stderr_not_readline)
  with mt Inl assms(2) show ?thesis
    by (auto simp: main_def main_except_def Let_def)
qed

theorem empty_stream_closes_cleanly_witness:
  "stdin (fresh_world [] None None) = []
   \<and> trace (fresh_world [] None None) = []
   \<and> parseArgs demo_libs demo_argv = Inr \<lparr>opt_modelId = ''m1'', opt_stats = demo_stats\<rparr>
   \<and> ModelRunner_init demo_libs ''m1'' demo_stats = Inr demo_self
   \<and> (\<exists>w'. main demo_libs demo_argv (fresh_world [] None None) = (Returned, w') \<and>
            exit_status (fst (main demo_libs demo_argv (fresh_world [] None None))) = Some 0 \<and>
            trace w' = [Stdin_readline []] \<and> stdout_writes (trace w') = [])
   \<and> ModelRunner_init (demo_libs\<lparr>AnomalyLikelihood := Inl demo_bare_error\<rparr>) ''m1'' demo_stats =
       Inl demo_bare_error
   \<and> fst (main (demo_libs\<lparr>AnomalyLikelihood := Inl demo_bare_error\<rparr>) demo_argv
           (fresh_world [] None None)) \<noteq> Returned
   \<and> filter is_readline
        (trace (snd (main (demo_libs\<lparr>AnomalyLikelihood := Inl demo_bare_error\<rparr>) demo_argv
           (fresh_world [] None None)))) = []"
proof -
  let ?w = "fresh_world [] None None"
  let ?bad = "demo_libs\<lparr>AnomalyLikelihood := Inl demo_bare_error\<rparr>"
  have h1: "stdin ?w = []" and h2: "trace ?w = []" by (simp_all add: fresh_world_def)
  have h3: "parseArgs demo_libs demo_argv = Inr \<lparr>opt_modelId = ''m1'', opt_stats = demo_stats\<rparr>"
    using demo_parseArgs_likelihood [of "AnomalyLikelihood demo_libs"] by simp
  note h3b = demo_parseArgs_likelihood [of "Inl demo_bare_error"]
  from empty_stream_closes_cleanly [OF h1 h2 h3]
  have a: "\<exists>w'. main demo_libs demo_argv ?w = (Returned, w') \<and>
            exit_status (fst (main demo_libs demo_argv (fresh_world [] None None))) = Some 0 \<and>
            trace w' = [Stdin_readline []] \<and> stdout_writes (trace w') = []"
    by (simp add: demo_init)
  from empty_stream_closes_cleanly [OF h1 h2 h3b]
  have b: "fst (main ?bad demo_argv ?w) \<noteq> Returned"
    and c: "filter is_readline (trace (snd (main ?bad demo_argv ?w))) = []"
    by (simp_all add: demo_init_fails)
  show ?thesis
    by (intro conjI) (rule h1, rule h2, rule h3, rule demo_init, rule a, rule demo_init_fails,
        rule b, rule c)
qed

text \<open>
  Claim C7. Before any history has accumulated in the anomaly likelihood estimator, that is
  on its first update calls, as long as there are not enough observations to fit a
  distribution, the update returns exactly the neutral default 0.5 and does not fail. The
  estimator is the one modelled from section 4.3 of the specification; its update is a
  total function, and from the initial state the update number \<open>k\<close> (counted from 0)
  returns 0.5 whenever \<open>k\<close> is below the number of observations a fit needs.
\<close>

theorem estimator_is_neutral_before_history:
  assumes "k < length obs" and "k < min_history params"
  shows "estimator_feed params estimator_init obs ! k = 1 / 2"
  using estimator_feed_warm_up [of k obs estimator_init params] assms
  by (simp add: estimator_init_def)

theorem estimator_is_neutral_before_history_witness:
  "(1::nat) < length [(10::real, 0::real, Datetime 0), (12, 1 / 10, Datetime 60000000),
                      (11, 2 / 10, Datetime 120000000), (50, 1, Datetime 180000000)]
   \<and> 1 < min_history demo_params
   \<and> estimator_feed demo_params estimator_init
        [(10, 0, Datetime 0), (12, 1 / 10, Datetime 60000000),
         (11, 2 / 10, Datetime 120000000), (50, 1, Datetime 180000000)] ! 1 = 1 / 2
   \<and> estimator_feed demo_params estimator_init
        [(10, 0, Datetime 0), (12, 1 / 10, Datetime 60000000),
         (11, 2 / 10, Datetime 120000000), (50, 1, Datetime 180000000)] =
       [1 / 2, 1 / 2, 3 / 4, 120 / 121]"
proof -
  let ?obs = "[(10, 0, Datetime 0), (12, 1 / 10, Datetime 60000000),
              (11, 2 / 10, Datetime 120000000), (50, 1, Datetime 180000000)]
                :: (real \<times> real \<times> datetime) list"
  have h1: "(1::nat) < length ?obs" by simp
  have h2: "1 < min_history demo_params" by (simp add: demo_params_def)
  note a = estimator_is_neutral_before_history [OF h1 h2]
  have b: "estimator_feed demo_params estimator_init ?obs = [1 / 2, 1 / 2, 3 / 4, 120 / 121]"
    by code_simp
  show ?thesis by (intro conjI) (rule h1, rule h2, rule a, rule b)
qed

text \<open>
  Claim C8. If writing the error report to the error channel fails (the write itself,
  credit 0, or the flush after it, credit 1), the handler catches that second failure,
  logs it, and the process still ends through \<^verbatim>\<open>os._exit(1)\<close>; the error channel holds
  nothing after the attempt but what the channel had accepted of the report.
\<close>

theorem stderr_failure_still_aborts:
  assumes "main_try libs argv w = (Inl ex, w1)"
    and "isinstance ex ''Exception''"
    and "stderr_credit w = Some n"
    and "n < 2"
    and "trace w = []"
  shows "\<exists>w'. main libs argv w = (Os_exit 1, w') \<and>
           filter is_stderr (trace w') =
             take n [Stderr_write (errorMessage libs ex), Stderr_flush] \<and>
           last (logged w') =
             Log_exception (''Failed to emit error message to stderr; msg='' @ errorMessage libs ex)"
proof -
  from main_try_frame [OF assms(1)] assms(5)
  have cr: "stderr_credit w1 = stderr_credit w" and quiet: "filter is_stderr (trace w1) = []"
    by auto
  from assms(4) have "n = 0 \<or> n = 1" by auto
  then show ?thesis
  proof
    assume n: "n = 0"
    with cr assms(3) have "stderr_credit w1 = Some 0" by simp
    from main_except_write_fails [OF this, of libs ex] main_failure [OF assms(1,2)] quiet n
    show ?thesis by auto
  next
    assume n: "n = 1"
    with cr assms(3) have "stderr_credit w1 = Some 1" by simp
    from main_except_flush_fails [OF this, of libs ex] main_failure [OF assms(1,2)] quiet n
    show ?thesis by auto
  qed
qed

theorem stderr_failure_still_aborts_witness:
  "main_try demo_libs demo_argv (fresh_world [''[1]'' @ newline] None (Some 0)) =
     (Inl (ValueError ''need more than 1 value to unpack''),
      \<lparr>stdin = [], stdout_credit = None, stderr_credit = Some 0,
       trace = [Stdin_readline (''[1]'' @ newline)],
       logged = [Log_info ''Processing model=m1'']\<rparr>)
   \<and> isinstance (ValueError ''need more than 1 value to unpack'') ''Exception''
   \<and> stderr_credit (fresh_world [''[1]'' @ newline] None (Some 0)) = Some 0
   \<and> (0::nat) < 2
   \<and> trace (fresh_world [''[1]'' @ newline] None (Some 0)) = []
   \<and> (\<exists>w'. main demo_libs demo_argv (fresh_world [''[1]'' @ newline] None (Some 0))
              = (Os_exit 1, w') \<and>
            filter is_stderr (trace w') = [] \<and>
            last (logged w') =
              Log_exception (''Failed to emit error message to stderr; msg=''
                @ errorMessage demo_libs (ValueError ''need more than 1 value to unpack'')))"
proof -
  let ?w = "fresh_world [''[1]'' @ newline] None (Some 0)"
  note h1 = demo_main_try_wrong_arity [of "Some 0"]
  note h2 = demo_ValueError_is_Exception [of "''need more than 1 value to unpack''"]
  have h3: "stderr_credit ?w = Some 0" by (simp add: fresh_world_def)
  have h4: "(0::nat) < 2" by simp
  have h5: "trace ?w = []" by (simp add: fresh_world_def)
  from stderr_failure_still_aborts [OF h1 h2 h3 h4 h5]
  have e: "\<exists>w'. main demo_libs demo_argv ?w = (Os_exit 1, w') \<and>
            filter is_stderr (trace w') = [] \<and>
            last (logged w') =
              Log_exception (''Failed to emit error message to stderr; msg=''
                @ errorMessage demo_libs (ValueError ''need more than 1 value to unpack''))"
    by simp
  show ?thesis
    by (intro conjI) (rule h1, rule h2, rule h3, rule h4, rule h5, rule e)
qed

text \<open>
  Claim C9. For every exception that reaches the handler of \<^verbatim>\<open>main\<close>, the \<open>errorText\<close>
  field of the report is a non-empty string: \<^verbatim>\<open>str(ex)\<close>, or \<^verbatim>\<open>repr(ex)\<close> when
  \<^verbatim>\<open>str(ex)\<close> is empty.
\<close>

theorem errorText_is_str_or_repr:
  assumes "main_try libs argv w = (Inl ex, w1)"
    and "isinstance ex ''Exception''"
    and "stderr_credit w \<noteq> Some 0"
    and "trace w = []"
  shows "\<exists>errorText. errorText \<noteq> [] \<and>
           errorText = (if py_str ex \<noteq> [] then py_str ex else py_repr ex) \<and>
           stderr_writes (trace (snd (main libs argv w))) =
             [json_dumps libs (PDict [(''errorText'', PStr errorText),
                                     (''diagnosticInfo'', PStr (format_exc libs ex))]) @ newline]"
proof -
  from main_try_frame [OF assms(1)] assms(4)
  have cr: "stderr_credit w1 = stderr_credit w" and quiet: "filter is_stderr (trace w1) = []"
    by auto
  from quiet have q: "stderr_writes (trace w1) = []" by (rule stderr_writes_filter)
  have "stderr_writes (trace (snd (main_except libs ex w1))) = [errorMessage libs ex]"
  proof (cases "stderr_credit w1")
    case None
    then have "stderr_credit w1 = None \<or> (\<exists>n. stderr_credit w1 = Some (Suc (Suc n)))" by simp
    from main_except_ok [OF this, of libs ex] q show ?thesis
      by (auto simp: stderr_writes_append)
  next
    case (Some n)
    with cr assms(3) have "n \<noteq> 0" by (cases n) auto
    then have "n = 1 \<or> (\<exists>k. n = Suc (Suc k))"
      by (cases n; simp) (metis not0_implies_Suc)
    then show ?thesis
    proof
      assume "n = 1"
      with Some have "stderr_credit w1 = Some 1" by simp
      from main_except_flush_fails [OF this, of libs ex] q show ?thesis
        by (auto simp: stderr_writes_append)
    next
      assume "\<exists>k. n = Suc (Suc k)"
      with Some have "stderr_credit w1 = None \<or> (\<exists>n. stderr_credit w1 = Some (Suc (Suc n)))"
        by auto
      from main_except_ok [OF this, of libs ex] q show ?thesis
        by (auto simp: stderr_writes_append)
    qed
  qed
  with main_failure [OF assms(1,2)] errorMessage_shape [of libs ex] py_repr_nonempty [of ex]
  show ?thesis by auto
qed

theorem errorText_is_str_or_repr_witness:
  "main_try (demo_libs\<lparr>AnomalyLikelihood := Inl demo_bare_error\<rparr>) demo_argv
      (fresh_world [] None None) = (Inl demo_bare_error, fresh_world [] None None)
   \<and> isinstance demo_bare_error ''Exception''
   \<and> stderr_credit (fresh_world [] None None) \<noteq> Some 0
   \<and> trace (fresh_world [] None None) = []
   \<and> py_str demo_bare_error = []
   \<and> stderr_writes (trace (snd (main (demo_libs\<lparr>AnomalyLikelihood := Inl demo_bare_error\<rparr>)
         demo_argv (fresh_world [] None None)))) =
        [demo_json_dumps (PDict [(''errorText'', PStr ''RuntimeError()''),
           (''diagnosticInfo'', PStr ''Traceback (most recent call last): RuntimeError'')])
         @ newline]"
proof -
  let ?libs = "demo_libs\<lparr>AnomalyLikelihood := Inl demo_bare_error\<rparr>"
  let ?w = "fresh_world [] None None"
  note h1 = demo_main_try_bare_error
  have h2: "isinstance demo_bare_error ''Exception''" by code_simp
  have h3: "stderr_credit ?w \<noteq> Some 0" by (simp add: fresh_world_def)
  have h4: "trace ?w = []" by (simp add: fresh_world_def)
  have h5: "py_str demo_bare_error = []" by code_simp
  have h6: "py_repr demo_bare_error = ''RuntimeError()''" by code_simp
  have h7: "json_dumps ?libs = demo_json_dumps" by (simp add: demo_libs_def)
  have h8: "format_exc ?libs demo_bare_error = ''Traceback (most recent call last): RuntimeError''"
    by code_simp
  from errorText_is_str_or_repr [OF h1 h2 h3 h4]
  have e: "stderr_writes (trace (snd (main ?libs demo_argv ?w))) =
        [demo_json_dumps (PDict [(''errorText'', PStr ''RuntimeError()''),
           (''diagnosticInfo'', PStr ''Traceback (most recent call last): RuntimeError'')])
         @ newline]"
    unfolding h5 h6 h7 h8 by simp
  show ?thesis
    by (intro conjI) (rule h1, rule h2, rule h3, rule h4, rule h5, rule e)
qed



end
